theory Spec2Isabelle
  imports Main "HOL-Library.Log_Nat"
begin

section \<open>Query router (utils/query\_router.py)\<close>

subsection \<open>Characters and the string operations the router uses\<close>

text \<open>
  Queries are modelled as HOL strings. The character operations below are those of
  Python on ASCII text: \<open>str.lower\<close> maps A-Z to a-z, \<open>str.strip\<close> removes the
  white space characters (tab, line feed, vertical tab, form feed, carriage return, the
  four separators 0x1C-0x1F and the blank) from both ends, and a word character of the
  \<open>re\<close> module is a letter, a digit or the underscore. A character outside ASCII is
  left alone by all three.
\<close>

definition ord :: "char \<Rightarrow> nat" where
  "ord c = of_char c"

definition is_word_char :: "char \<Rightarrow> bool" where
  "is_word_char c = (let n = ord c in
     (48 \<le> n \<and> n \<le> 57) \<or> (65 \<le> n \<and> n \<le> 90) \<or> n = 95 \<or> (97 \<le> n \<and> n \<le> 122))"

definition lower_char :: "char \<Rightarrow> char" where
  "lower_char c = (let n = ord c in if 65 \<le> n \<and> n \<le> 90 then char_of (n + 32) else c)"

definition is_space :: "char \<Rightarrow> bool" where
  "is_space c = (let n = ord c in (9 \<le> n \<and> n \<le> 13) \<or> (28 \<le> n \<and> n \<le> 32))"

definition lower :: "string \<Rightarrow> string" where
  "lower s = map lower_char s"

definition strip :: "string \<Rightarrow> string" where
  "strip s = rev (dropWhile is_space (rev (dropWhile is_space s)))"

subsection \<open>The fragment of regular expressions of the two pattern tables\<close>

text \<open>
  The tables use literal text, \<open>.\<close> (any character but a line feed), \<open>.*\<close>,
  \<open>\b\<close> (a word boundary), \<open>x?\<close>, alternation in a group and concatenation.
  \<open>matches k pw s\<close> says whether the sequence \<open>k\<close> of expressions matches a prefix of
  \<open>s\<close>, where \<open>pw\<close> tells whether the character before \<open>s\<close> is a word character
  (false at the start of the text). The patterns are compiled with \<open>re.IGNORECASE\<close>:
  a literal character matches whatever has the same lower case.
\<close>

datatype regex =
    Str string
  | AnyChar
  | WordB
  | Opt regex
  | AnyStar
  | Alt "regex list"
  | Seq "regex list"

primrec weight :: "regex \<Rightarrow> nat" where
  "weight (Str cs) = 1"
| "weight AnyChar = 1"
| "weight WordB = 1"
| "weight (Opt r) = Suc (weight r)"
| "weight AnyStar = 1"
| "weight (Alt rs) = Suc (sum_list (map weight rs))"
| "weight (Seq rs) = Suc (sum_list (map weight rs))"

fun eat :: "string \<Rightarrow> bool \<Rightarrow> string \<Rightarrow> (bool \<times> string) option" where
  "eat [] pw s = Some (pw, s)"
| "eat (c # cs) pw [] = None"
| "eat (c # cs) pw (x # xs) =
     (if lower_char x = lower_char c then eat cs (is_word_char x) xs else None)"

definition at_boundary :: "bool \<Rightarrow> string \<Rightarrow> bool" where
  "at_boundary pw s = (pw \<noteq> (case s of [] \<Rightarrow> False | x # _ \<Rightarrow> is_word_char x))"

function matches :: "regex list \<Rightarrow> bool \<Rightarrow> string \<Rightarrow> bool" where
  "matches [] pw s = True"
| "matches (Str cs # k) pw s =
     (case eat cs pw s of None \<Rightarrow> False | Some (pw', s') \<Rightarrow> matches k pw' s')"
| "matches (AnyChar # k) pw s =
     (case s of [] \<Rightarrow> False
      | x # xs \<Rightarrow> if x = CHR 0x0A then False else matches k (is_word_char x) xs)"
| "matches (WordB # k) pw s = (if at_boundary pw s then matches k pw s else False)"
| "matches (Opt r # k) pw s = (if matches (r # k) pw s then True else matches k pw s)"
| "matches (AnyStar # k) pw s =
     (if matches k pw s then True
      else case s of [] \<Rightarrow> False
           | x # xs \<Rightarrow> if x = CHR 0x0A then False
                      else matches (AnyStar # k) (is_word_char x) xs)"
| "matches (Alt rs # k) pw s = list_ex (\<lambda>r. matches (r # k) pw s) rs"
| "matches (Seq rs # k) pw s = matches (rs @ k) pw s"
  by pat_completeness auto

termination
proof -
  have pos: "0 < weight r" for r
    by (cases r) auto
  have mem: "weight r \<le> sum_list (map weight rs)" if "r \<in> set rs" for r rs
    using that by (induction rs) auto
  show ?thesis
    by (relation "measures [\<lambda>(k, pw, s). sum_list (map weight k), \<lambda>(k, pw, s). length s]")
       (auto simp: pos less_Suc_eq_le mem)
qed

text \<open>\<open>pattern.search(text)\<close>: a match starting at some position of the text.\<close>

fun search_from :: "regex \<Rightarrow> bool \<Rightarrow> string \<Rightarrow> bool" where
  "search_from p pw [] = matches [p] pw []"
| "search_from p pw (x # xs) =
     (if matches [p] pw (x # xs) then True else search_from p (is_word_char x) xs)"

definition search :: "regex \<Rightarrow> string \<Rightarrow> bool" where
  "search p s = search_from p False s"

subsection \<open>The pattern tables\<close>

text \<open>
  Four shapes cover most entries of the tables, in the order of the source; an entry of
  another shape is written out under its source pattern.
\<close>

definition word :: "string \<Rightarrow> regex" where
  \<comment> \<open>\<open>\bTEXT\b\<close>\<close>
  "word t = Seq [WordB, Str t, WordB]"

definition plural :: "string \<Rightarrow> regex" where
  \<comment> \<open>\<open>\bTEXT[s]?\b\<close>\<close>
  "plural t = Seq [WordB, Str t, Opt (Str ''s''), WordB]"

definition word_then :: "string \<Rightarrow> string list \<Rightarrow> regex" where
  \<comment> \<open>\<open>\bTEXT\b.*\b(A|B|...)\<close>\<close>
  "word_then t as = Seq [WordB, Str t, WordB, AnyStar, WordB, Alt (map Str as)]"

definition word_then_word :: "string \<Rightarrow> string list \<Rightarrow> regex" where
  \<comment> \<open>\<open>\bTEXT\b.*\b(A|B|...)\b\<close>\<close>
  "word_then_word t as = Seq [WordB, Str t, WordB, AnyStar, WordB, Alt (map Str as), WordB]"

definition DATA_QUERY_PATTERNS :: "regex list" where
  \<open>DATA_QUERY_PATTERNS =
   [ word ''how many'',
     word_then ''show me'' [''data'', ''record'', ''client'', ''metric'', ''table'', ''result''],
     word ''what data'',
     word ''query'',
     plural ''table'',
     plural ''client'',
     plural ''metric'',
     word_then ''count'' [''record'', ''client'', ''row'', ''entry'', ''item''],
     word_then ''list'' [''all'', ''client'', ''record'', ''data'', ''table''],
     word_then ''find'' [''record'', ''client'', ''data'', ''entry''],
     word_then ''search'' [''database'', ''record'', ''client'', ''data''],
     word ''database'',
     plural ''record'',
     word ''housing risk'',
     word ''disability'',
     word ''mental health'',
     plural ''demographic'',
     plural ''measureresponse'',
     plural ''outcome'',
     word ''program evaluation'',
     word_then ''average'' [''score'', ''value'', ''count'', ''number''],
     word_then ''total'' [''count'', ''number'', ''client'', ''record''],
     word ''sum'',
     word ''percentage'',
     word ''distribution'',
     word ''breakdown'',
     word_then ''analyze'' [''data'', ''record'', ''client''],
     word_then ''analysis'' [''data'', ''record'', ''client''],
     plural ''statistic'',
     \<comment> \<open>\<open>\btrend[s]?\b.*\b(data|client|record)\<close>\<close>
     Seq [WordB, Str ''trend'', Opt (Str ''s''), WordB, AnyStar, WordB,
          Alt [Str ''data'', Str ''client'', Str ''record'']],
     word_then ''compare'' [''data'', ''client'', ''record'', ''metric''],
     word_then ''comparison'' [''data'', ''client'', ''record''],
     word_then ''filter'' [''data'', ''record'', ''client'', ''by''],
     word ''group by'',
     word_then ''sort'' [''by'', ''data'', ''record''],
     word ''order by'',
     word_then ''select'' [''from'', ''data'', ''record''],
     word_then ''where'' [''='', ''>'', ''<'', ''is'', ''are''],
     \<comment> \<open>\<open>\bfrom\b.*\btable\b\<close>\<close>
     Seq [WordB, Str ''from'', WordB, AnyStar, WordB, Str ''table'', WordB],
     \<comment> \<open>\<open>\bai.?final\b\<close>\<close>
     Seq [WordB, Str ''ai'', Opt AnyChar, Str ''final'', WordB],
     word ''cleaned'',
     word ''longitudinal'',
     \<comment> \<open>\<open>\bsingle.?record\b\<close>\<close>
     Seq [WordB, Str ''single'', Opt AnyChar, Str ''record'', WordB],
     plural ''support need'',
     plural ''risk level'',
     plural ''assessment'' ]\<close>

definition GENERAL_QUERY_INDICATORS :: "regex list" where
  \<open>GENERAL_QUERY_INDICATORS =
   [ word ''explain'',
     word_then_word ''what is''
       [''machine learning'', ''ai'', ''artificial intelligence'', ''programming'', ''coding'',
        ''concept''],
     \<comment> \<open>\<open>\bhow does\b.*\bwork\b\<close>\<close>
     Seq [WordB, Str ''how does'', WordB, AnyStar, WordB, Str ''work'', WordB],
     word_then_word ''write'' [''code'', ''script'', ''program'', ''story'', ''poem'', ''essay''],
     word_then_word ''create'' [''story'', ''poem'', ''essay'', ''content''],
     word ''tell me about'',
     word ''define'',
     word_then_word ''describe'' [''concept'', ''how'', ''what''],
     word ''help me understand'',
     word ''what are the benefits'',
     word ''what are the advantages'',
     word ''what are the disadvantages'',
     word ''pros and cons'',
     word ''opinion'',
     word ''think about'',
     plural ''suggestion'',
     word ''recommend'',
     word ''advice'',
     word ''tips'',
     plural ''best practice'',
     word_then_word ''how to'' [''learn'', ''improve'', ''start'', ''begin''],
     word ''tutorial'',
     word ''guide'',
     word ''benefits of'',
     word ''advantages of'',
     word ''disadvantages of'',
     word_then_word ''using'' [''ai'', ''machine learning'', ''python'', ''programming''] ]\<close>

subsection \<open>Python floats\<close>

text \<open>
  A Python float is an IEEE 754 binary64 number. A finite one is modelled by the rational
  it denotes, and every arithmetic operation rounds its exact result to the nearest
  number with a 53-bit significand, ties to the even significand. The exponent range is
  not modelled: the router's numbers stay between 0.05 and a few units, far from overflow
  and from the subnormal range.
\<close>

definition binade :: "rat \<Rightarrow> int" where
  \<comment> \<open>for \<open>0 < x\<close>, the \<open>e\<close> with \<open>2\<^sup>e \<le> x < 2\<^sup>e\<^sup>+\<^sup>1\<close>\<close>
  "binade x = (let (p, q) = quotient_of x; e = bitlen p - bitlen q
               in if x < 2 powi e then e - 1 else e)"

definition round_half_even :: "rat \<Rightarrow> int" where
  "round_half_even x = (let f = \<lfloor>x\<rfloor>; d = x - of_int f
     in if d < 1 / 2 then f else if 1 / 2 < d then f + 1 else if even f then f else f + 1)"

definition to_double :: "rat \<Rightarrow> rat" where
  "to_double x = (if x = 0 then 0
     else let u = 2 powi (binade \<bar>x\<bar> - 52)
          in sgn x * of_int (round_half_even (\<bar>x\<bar> / u)) * u)"

definition fadd :: "rat \<Rightarrow> rat \<Rightarrow> rat" where
  "fadd a b = to_double (a + b)"

definition fmul :: "rat \<Rightarrow> rat \<Rightarrow> rat" where
  "fmul a b = to_double (a * b)"

definition float_of_int :: "int \<Rightarrow> rat" where
  "float_of_int n = to_double (of_int n)"

text \<open>The float literals of the router, each the double nearest to its decimal.\<close>

definition f_0_5 :: rat where "f_0_5 = to_double (5 / 10)"
definition f_0_1 :: rat where "f_0_1 = to_double (1 / 10)"
definition f_0_05 :: rat where "f_0_05 = to_double (5 / 100)"
definition f_0_95 :: rat where "f_0_95 = to_double (95 / 100)"
definition f_0_85 :: rat where "f_0_85 = to_double (85 / 100)"

text \<open>Further floats that the results below mention.\<close>

definition f_0_6 :: rat where "f_0_6 = to_double (6 / 10)"
definition f_0_8 :: rat where "f_0_8 = to_double (8 / 10)"
definition f_0_55 :: rat where "f_0_55 = to_double (55 / 100)"

subsection \<open>QueryRouter\<close>

datatype QueryType = DATA | GENERAL

definition count_matches :: "regex list \<Rightarrow> string \<Rightarrow> int" where
  \<comment> \<open>\<open>sum(1 for p in patterns if p.search(query_lower))\<close>\<close>
  "count_matches ps q = sum_list (map (\<lambda>p. 1) (filter (\<lambda>p. search p q) ps))"

text \<open>
  \<open>classify_query\<close> also computes two scores, the counts divided by the sizes of the
  tables, and never reads them; they are left out.
\<close>

definition classify_query :: "string \<Rightarrow> QueryType \<times> rat" where
  "classify_query query =
    (let query_lower = strip (lower query);
         data_matches = count_matches DATA_QUERY_PATTERNS query_lower;
         general_matches = count_matches GENERAL_QUERY_INDICATORS query_lower
     in if data_matches > 0 \<and> general_matches = 0 then
          (DATA, min (fadd f_0_5 (fmul (float_of_int data_matches) f_0_1)) f_0_95)
        else if general_matches > 0 \<and> data_matches = 0 then
          (GENERAL, min (fadd f_0_5 (fmul (float_of_int general_matches) f_0_1)) f_0_95)
        else if data_matches > general_matches then
          (DATA, min (fadd f_0_5 (fmul (float_of_int (data_matches - general_matches)) f_0_05))
                     f_0_85)
        else if general_matches > data_matches then
          (GENERAL, min (fadd f_0_5 (fmul (float_of_int (general_matches - data_matches)) f_0_05))
                        f_0_85)
        else (GENERAL, f_0_5))"

definition should_route_to_genie :: "string \<Rightarrow> bool" where
  "should_route_to_genie query =
     (let (query_type, confidence) = classify_query query
      in query_type = DATA \<and> confidence \<ge> f_0_5)"

subsection \<open>The vocabulary of the specification\<close>

text \<open>
  The number of patterns of each table that match the lowercased, trimmed query; the
  signed margin between them; whether the query matches patterns of one table at most;
  and the two confidence formulas of \<open>classify_query\<close>.
\<close>

definition data_hits :: "string \<Rightarrow> nat" where
  "data_hits q = length (filter (\<lambda>p. search p (strip (lower q))) DATA_QUERY_PATTERNS)"

definition general_hits :: "string \<Rightarrow> nat" where
  "general_hits q = length (filter (\<lambda>p. search p (strip (lower q))) GENERAL_QUERY_INDICATORS)"

definition signed_margin :: "string \<Rightarrow> int" where
  "signed_margin q = int (data_hits q) - int (general_hits q)"

definition one_sided :: "string \<Rightarrow> bool" where
  "one_sided q = (data_hits q = 0 \<or> general_hits q = 0)"

definition single_confidence :: "int \<Rightarrow> rat" where
  "single_confidence n = min (fadd f_0_5 (fmul (float_of_int n) f_0_1)) f_0_95"

definition mixed_confidence :: "int \<Rightarrow> rat" where
  "mixed_confidence n = min (fadd f_0_5 (fmul (float_of_int n) f_0_05)) f_0_85"


section \<open>Genie client (utils/genie\_client.py)\<close>

subsection \<open>JSON values and the Python operations applied to them\<close>

text \<open>
  What \<open>json.loads\<close> and \<open>response.json()\<close> produce: Python's \<open>None\<close>, booleans,
  numbers, strings, lists and dictionaries with string keys. \<open>JNull\<close> is \<open>None\<close>, also
  where the client itself returns \<open>None\<close>. A dictionary is a list of entries in which the
  first entry of a key is the one that counts.
\<close>

datatype json =
    JNull
  | JBool bool
  | JNum rat
  | JStr string
  | JArr "json list"
  | JObj "(string \<times> json) list"

text \<open>
  The exceptions that can reach an \<open>except\<close> clause of the client, all of them of
  class \<open>Exception\<close>: those of the interpreter on a value of the wrong type, those of
  \<open>json.loads\<close> and \<open>json.dumps\<close> (\<open>JSONDecodeError\<close> on text that is not JSON,
  \<open>RecursionError\<close> on deep nesting, \<open>ValueError\<close> on an integer with too many digits)
  and whatever else the token issuer and the HTTP library raise. What lies outside
  that class, a cancellation or an interrupt, is raised by the event loop or the
  interpreter, not by the service or the token issuer, and is not modelled.
\<close>

datatype exn =
    HTTPStatusError nat
  | JSONDecodeError
  | RecursionError
  | ValueError
  | AttributeError
  | TypeError
  | KeyError
  | IndexError
  | Raised string

definition then_do :: "exn + 'a \<Rightarrow> ('a \<Rightarrow> exn + 'b) \<Rightarrow> exn + 'b" where
  "then_do r f = (case r of Inl e \<Rightarrow> Inl e | Inr v \<Rightarrow> f v)"

definition truthy :: "json \<Rightarrow> bool" where
  "truthy v = (case v of
      JNull \<Rightarrow> False
    | JBool b \<Rightarrow> b
    | JNum n \<Rightarrow> n \<noteq> 0
    | JStr s \<Rightarrow> s \<noteq> []
    | JArr xs \<Rightarrow> xs \<noteq> []
    | JObj kvs \<Rightarrow> kvs \<noteq> [])"

fun starts_with :: "string \<Rightarrow> string \<Rightarrow> bool" where
  "starts_with s [] = True"
| "starts_with [] (c # cs) = False"
| "starts_with (x # xs) (c # cs) = (if x = c then starts_with xs cs else False)"

fun contains :: "string \<Rightarrow> string \<Rightarrow> bool" where
  \<comment> \<open>\<open>t in s\<close> on strings\<close>
  "contains [] t = (t = [])"
| "contains (x # xs) t = (if starts_with (x # xs) t then True else contains xs t)"

definition py_get :: "json \<Rightarrow> string \<Rightarrow> json \<Rightarrow> exn + json" where
  \<comment> \<open>\<open>v.get(key, default)\<close>: only a dictionary has the method\<close>
  "py_get v key dflt = (case v of
      JObj kvs \<Rightarrow> Inr (case map_of kvs key of None \<Rightarrow> dflt | Some x \<Rightarrow> x)
    | _ \<Rightarrow> Inl AttributeError)"

definition py_in :: "string \<Rightarrow> json \<Rightarrow> exn + bool" where
  \<comment> \<open>\<open>key in v\<close>: a key of a dictionary, an element of a list, a substring of a string\<close>
  "py_in key v = (case v of
      JObj kvs \<Rightarrow> Inr (key \<in> fst ` set kvs)
    | JArr xs \<Rightarrow> Inr (JStr key \<in> set xs)
    | JStr s \<Rightarrow> Inr (contains s key)
    | _ \<Rightarrow> Inl TypeError)"

definition py_nonempty :: "json \<Rightarrow> exn + bool" where
  \<comment> \<open>\<open>v and len(v) > 0\<close>: \<open>len\<close> of a number or of \<open>True\<close> raises\<close>
  "py_nonempty v = (if \<not> truthy v then Inr False
     else case v of
        JStr s \<Rightarrow> Inr True
      | JArr xs \<Rightarrow> Inr True
      | JObj kvs \<Rightarrow> Inr True
      | _ \<Rightarrow> Inl TypeError)"

definition py_first :: "json \<Rightarrow> exn + json" where
  \<comment> \<open>\<open>v[0]\<close>: a dictionary from JSON has no key \<open>0\<close>\<close>
  "py_first v = (case v of
      JArr [] \<Rightarrow> Inl IndexError
    | JArr (x # xs) \<Rightarrow> Inr x
    | JStr [] \<Rightarrow> Inl IndexError
    | JStr (c # cs) \<Rightarrow> Inr (JStr [c])
    | JObj kvs \<Rightarrow> Inl KeyError
    | _ \<Rightarrow> Inl TypeError)"

definition py_lower :: "json \<Rightarrow> exn + string" where
  \<comment> \<open>\<open>v.lower()\<close>: only a string has the method\<close>
  "py_lower v = (case v of JStr s \<Rightarrow> Inr (lower s) | _ \<Rightarrow> Inl AttributeError)"

subsection \<open>The collaborators\<close>

text \<open>
  The libraries the client calls are parameters. \<open>json.loads\<close> on a string gives a
  value or raises: \<open>JSONDecodeError\<close> on text that is not JSON, but also
  \<open>RecursionError\<close> or \<open>ValueError\<close>, which are not of that class.
  \<open>json.dumps(v, indent=2)\<close> gives a string or raises. The rendering
  \<open>pandas.DataFrame(v).to_markdown(index=False)\<close> gives a string, or \<open>None\<close> when it
  raises. \<open>str(v)\<close> of a value that is neither string, list nor dictionary and
  \<open>str(e)\<close> of an exception give strings.
\<close>

record env =
  loads :: "string \<Rightarrow> exn + json"
  dumps :: "json \<Rightarrow> exn + string"
  to_markdown :: "json \<Rightarrow> string option"
  py_str :: "json \<Rightarrow> string"
  exn_text :: "exn \<Rightarrow> string"

text \<open>
  What one request meets: the token issuer raises, the HTTP call raises, or a response
  comes back with its status code and what \<open>response.json()\<close> gives.
\<close>

datatype reply =
    TokenFails exn
  | SendFails exn
  | Response nat "exn + json"

definition is_success :: "nat \<Rightarrow> bool" where
  \<comment> \<open>\<open>raise_for_status()\<close> passes the 2xx codes\<close>
  "is_success code = (200 \<le> code \<and> code < 300)"

definition py_loads :: "env \<Rightarrow> json \<Rightarrow> exn + json" where
  \<comment> \<open>\<open>json.loads(v)\<close>: a value that is not a string is a \<open>TypeError\<close>\<close>
  "py_loads E v = (case v of JStr s \<Rightarrow> loads E s | _ \<Rightarrow> Inl TypeError)"

subsection \<open>GenieMCPClient\<close>

record client =
  conversation_ids :: "string \<rightharpoonup> json"

text \<open>
  \<open>_format_data_as_table\<close> catches every exception of the rendering and falls back
  to \<open>json.dumps\<close>, outside the \<open>try\<close>. \<open>_format_response\<close> catches the
  \<open>JSONDecodeError\<close> of its \<open>try\<close> block, which holds \<open>json.loads\<close> and the
  formatting of what it gives, and lets every other exception through.
\<close>

definition format_data_as_table :: "env \<Rightarrow> json \<Rightarrow> exn + string" where
  "format_data_as_table E data =
     (if \<not> truthy data then Inr ''No data found.''
      else case to_markdown E data of Some t \<Rightarrow> Inr t | None \<Rightarrow> dumps E data)"

definition format_dict :: "env \<Rightarrow> (string \<times> json) list \<Rightarrow> exn + string" where
  \<comment> \<open>the two dictionary branches of \<open>_format_response\<close>, which are the same\<close>
  "format_dict E kvs = (case map_of kvs ''data'' of
      Some d \<Rightarrow> format_data_as_table E d
    | None \<Rightarrow> dumps E (JObj kvs))"

definition format_decoded :: "env \<Rightarrow> string \<Rightarrow> exn + string" where
  \<comment> \<open>the \<open>try\<close> block of \<open>_format_response\<close> on the string \<open>s\<close>\<close>
  "format_decoded E s = then_do (loads E s) (\<lambda>data. case data of
      JArr xs \<Rightarrow> format_data_as_table E (JArr xs)
    | JObj kvs \<Rightarrow> format_dict E kvs
    | _ \<Rightarrow> Inr s)"

definition format_response :: "env \<Rightarrow> json \<Rightarrow> exn + string" where
  "format_response E response = (case response of
      JStr s \<Rightarrow> (case format_decoded E s of Inl JSONDecodeError \<Rightarrow> Inr s | r \<Rightarrow> r)
    | JArr xs \<Rightarrow> format_data_as_table E (JArr xs)
    | JObj kvs \<Rightarrow> format_dict E kvs
    | _ \<Rightarrow> Inr (py_str E response))"

definition get_conversation_id :: "client \<Rightarrow> string \<Rightarrow> json" where
  \<comment> \<open>\<open>self.conversation_ids.get(session_id)\<close>\<close>
  "get_conversation_id c session_id =
     (case conversation_ids c session_id of None \<Rightarrow> JNull | Some v \<Rightarrow> v)"

definition clear_conversation :: "client \<Rightarrow> string \<Rightarrow> client" where
  "clear_conversation c session_id =
     (if session_id \<in> dom (conversation_ids c)
      then c\<lparr>conversation_ids := (conversation_ids c)(session_id := None)\<rparr>
      else c)"

definition set_conversation_id :: "client \<Rightarrow> string \<Rightarrow> json \<Rightarrow> client" where
  \<comment> \<open>\<open>self.conversation_ids[session_id] = new_conversation_id\<close>\<close>
  "set_conversation_id c session_id v =
     c\<lparr>conversation_ids := (conversation_ids c)(session_id \<mapsto> v)\<rparr>"


text \<open>The messages the client writes itself.\<close>

definition rate_limit_message :: string where
  "rate_limit_message =
     ''The service is currently experiencing high demand. Please try again in a few moments.''"

definition expired_message :: string where
  "expired_message = ''The conversation has expired. Please try your query again.''"

definition timeout_message :: string where
  "timeout_message = ''Query timed out. Please try again.''"

definition done_statuses :: "string list" where
  "done_statuses = [''completed'', ''complete'']"

definition failed_statuses :: "string list" where
  "failed_statuses = [''error'', ''failed'']"

text \<open>
  One pass through the body of the polling loop, the \<open>try\<close> block of
  \<open>_poll_for_completion\<close>: \<open>Inl e\<close> when it raises \<open>e\<close>, \<open>Inr None\<close> when it
  reaches a sleep (the \<open>continue\<close> after a 429, or the end of the block), and
  \<open>Inr (Some (text, error))\<close> when it returns. The inner \<open>try\<close> block holds
  \<open>json.loads\<close> and the reading of what it gives (\<open>poll_parsed\<close>); its
  \<open>except json.JSONDecodeError: pass\<close> catches that exception and no other.
\<close>

definition poll_parsed :: "env \<Rightarrow> json \<Rightarrow> json \<Rightarrow> exn + (string \<times> json) option" where
  "poll_parsed E text_content parsed =
     then_do (py_get parsed ''status'' (JStr '''')) (\<lambda>status.
     then_do (py_lower status) (\<lambda>status_lower.
       if status_lower \<in> set done_statuses then
         then_do (py_get parsed ''response'' text_content) (\<lambda>response_text.
         then_do (format_response E response_text) (\<lambda>shown.
           Inr (Some (shown, JNull))))
       else if status_lower \<in> set failed_statuses then
         then_do (py_get parsed ''error'' (JStr ''Query failed'')) (\<lambda>err.
           Inr (Some ('''', err)))
       else Inr None))"

definition poll_text :: "env \<Rightarrow> json \<Rightarrow> exn + (string \<times> json) option" where
  "poll_text E text_content =
     (case then_do (py_loads E text_content) (poll_parsed E text_content) of
        Inl JSONDecodeError \<Rightarrow> Inr None
      | r \<Rightarrow> r)"

definition poll_result :: "env \<Rightarrow> json \<Rightarrow> exn + (string \<times> json) option" where
  "poll_result E result =
     then_do (py_in ''error'' result) (\<lambda>has_error.
       if has_error then
         then_do (py_get result ''error'' (JObj [])) (\<lambda>err.
         then_do (py_get err ''message'' (JStr ''Unknown error'')) (\<lambda>error_msg.
         then_do (py_lower error_msg) (\<lambda>msg_lower.
           if contains msg_lower ''expired'' \<or> contains msg_lower ''not found''
           then Inr (Some ('''', JStr expired_message))
           else Inr (Some ('''', error_msg)))))
       else
         then_do (py_get result ''result'' (JObj [])) (\<lambda>res.
         then_do (py_get res ''content'' (JArr [])) (\<lambda>content.
         then_do (py_nonempty content) (\<lambda>present.
           if present then
             then_do (py_first content) (\<lambda>item.
             then_do (py_get item ''text'' (JStr '''')) (\<lambda>text_content.
               poll_text E text_content))
           else Inr None))))"

definition poll_attempt :: "env \<Rightarrow> reply \<Rightarrow> exn + (string \<times> json) option" where
  "poll_attempt E r = (case r of
      TokenFails e \<Rightarrow> Inl e
    | SendFails e \<Rightarrow> Inl e
    | Response code body \<Rightarrow>
        if code = 429 then Inr None
        else if \<not> is_success code then Inl (HTTPStatusError code)
        else then_do body (poll_result E))"

definition posted :: "reply \<Rightarrow> nat" where
  \<comment> \<open>the calls of \<open>self.client.post\<close> in one attempt: none when the token issuer raised\<close>
  "posted r = (case r of TokenFails e \<Rightarrow> 0 | _ \<Rightarrow> 1)"

text \<open>
  \<open>for attempt in range(max_attempts)\<close>. \<open>replies attempt\<close> is what the attempt meets;
  the last component of the result counts the calls of \<open>self.client.post\<close>. An
  exception inside the loop body is logged and the loop goes on.
\<close>

function poll_from ::
  "env \<Rightarrow> nat \<Rightarrow> (nat \<Rightarrow> reply) \<Rightarrow> nat \<Rightarrow> nat \<Rightarrow> (string \<times> json) \<times> nat" where
  "poll_from E max_attempts replies attempt calls =
     (if attempt < max_attempts then
        (case poll_attempt E (replies attempt) of
           Inr (Some answer) \<Rightarrow> (answer, calls + posted (replies attempt))
         | Inr None \<Rightarrow>
             poll_from E max_attempts replies (attempt + 1) (calls + posted (replies attempt))
         | Inl e \<Rightarrow>
             poll_from E max_attempts replies (attempt + 1) (calls + posted (replies attempt)))
      else (('''', JStr timeout_message), calls))"
  by pat_completeness auto
termination
  by (relation "measure (\<lambda>(E, max_attempts, replies, attempt, calls). max_attempts - attempt)")
     auto

definition poll_for_completion ::
  "env \<Rightarrow> nat \<Rightarrow> (nat \<Rightarrow> reply) \<Rightarrow> (string \<times> json) \<times> nat" where
  "poll_for_completion E max_attempts replies = poll_from E max_attempts replies 0 0"

text \<open>
  \<open>query_genie\<close>. The \<open>try\<close> block gives the exception it raises or the triple it
  returns, together with the client as it leaves it: the assignment to
  \<open>conversation_ids\<close> comes before the statements that can still raise. \<open>first\<close> is
  what the request meets and \<open>polls\<close> what the polling attempts meet, with the default
  \<open>max_attempts = 60\<close>. The request text goes into the payload only.
\<close>

definition opt_str :: "string option \<Rightarrow> json" where
  "opt_str v = (case v of None \<Rightarrow> JNull | Some s \<Rightarrow> JStr s)"

definition query_parsed ::
  "env \<Rightarrow> client \<Rightarrow> string \<Rightarrow> json \<Rightarrow> json \<Rightarrow> (nat \<Rightarrow> reply)
     \<Rightarrow> (exn + string \<times> json \<times> json) \<times> client" where
  "query_parsed E c session_id text_content parsed polls =
     (case py_get parsed ''conversation_id'' JNull of
        Inl e \<Rightarrow> (Inl e, c)
      | Inr new_conversation_id \<Rightarrow>
     (case py_get parsed ''message_id'' JNull of
        Inl e \<Rightarrow> (Inl e, c)
      | Inr message_id \<Rightarrow>
     (case py_get parsed ''status'' (JStr '''') of
        Inl e \<Rightarrow> (Inl e, c)
      | Inr status \<Rightarrow>
       (let c' = (if truthy new_conversation_id
                  then set_conversation_id c session_id new_conversation_id else c)
        in case py_lower status of
             Inl e \<Rightarrow> (Inl e, c')
           | Inr status_lower \<Rightarrow>
               if status_lower \<notin> set done_statuses then
                 (let (response_text, error) = fst (poll_for_completion E 60 polls)
                  in if truthy error then (Inr ('''', new_conversation_id, error), c')
                     else (Inr (response_text, new_conversation_id, JNull), c'))
               else
                 (then_do (py_get parsed ''response'' text_content) (\<lambda>response_text.
                  then_do (format_response E response_text) (\<lambda>shown.
                    Inr (shown, new_conversation_id, JNull))), c')))))"

text \<open>
  The inner \<open>try\<close> block of \<open>query_genie\<close> holds \<open>json.loads\<close> and all of
  \<open>query_parsed\<close>. Its handler takes a \<open>JSONDecodeError\<close>, from wherever in the
  block, and returns the formatted text with the conversation id of the caller; any
  other exception goes on to the outer handlers.
\<close>

definition decode_failed ::
  "env \<Rightarrow> json \<Rightarrow> json \<Rightarrow> exn \<Rightarrow> client \<Rightarrow> (exn + string \<times> json \<times> json) \<times> client" where
  "decode_failed E conversation_id text_content e c =
     (if e = JSONDecodeError then
        (then_do (format_response E text_content) (\<lambda>shown.
           Inr (shown, conversation_id, JNull)), c)
      else (Inl e, c))"

definition query_text ::
  "env \<Rightarrow> client \<Rightarrow> string \<Rightarrow> json \<Rightarrow> json \<Rightarrow> (nat \<Rightarrow> reply)
     \<Rightarrow> (exn + string \<times> json \<times> json) \<times> client" where
  "query_text E c session_id conversation_id text_content polls =
     (case py_loads E text_content of
        Inl e \<Rightarrow> decode_failed E conversation_id text_content e c
      | Inr parsed \<Rightarrow>
          (case query_parsed E c session_id text_content parsed polls of
             (Inl e, c') \<Rightarrow> decode_failed E conversation_id text_content e c'
           | (Inr answer, c') \<Rightarrow> (Inr answer, c')))"

definition query_result ::
  "env \<Rightarrow> client \<Rightarrow> string \<Rightarrow> json \<Rightarrow> json \<Rightarrow> (nat \<Rightarrow> reply)
     \<Rightarrow> (exn + string \<times> json \<times> json) \<times> client" where
  "query_result E c session_id conversation_id result polls =
     (case py_in ''error'' result of
        Inl e \<Rightarrow> (Inl e, c)
      | Inr True \<Rightarrow>
          (then_do (py_get result ''error'' (JObj [])) (\<lambda>err.
           then_do (py_get err ''message'' (JStr ''Unknown error from Genie'')) (\<lambda>error_msg.
             Inr ('''', JNull, error_msg))), c)
      | Inr False \<Rightarrow>
     (case then_do (py_get result ''result'' (JObj [])) (\<lambda>res.
             py_get res ''content'' (JArr [])) of
        Inl e \<Rightarrow> (Inl e, c)
      | Inr content \<Rightarrow>
     (case py_nonempty content of
        Inl e \<Rightarrow> (Inl e, c)
      | Inr False \<Rightarrow> (Inr (''No response from Genie Space.'', conversation_id, JNull), c)
      | Inr True \<Rightarrow>
     (case then_do (py_first content) (\<lambda>item. py_get item ''text'' (JStr '''')) of
        Inl e \<Rightarrow> (Inl e, c)
      | Inr text_content \<Rightarrow>
          query_text E c session_id conversation_id text_content polls))))"

definition query_genie_try ::
  "env \<Rightarrow> client \<Rightarrow> string \<Rightarrow> json \<Rightarrow> reply \<Rightarrow> (nat \<Rightarrow> reply)
     \<Rightarrow> (exn + string \<times> json \<times> json) \<times> client" where
  "query_genie_try E c session_id conversation_id first polls = (case first of
      TokenFails e \<Rightarrow> (Inl e, c)
    | SendFails e \<Rightarrow> (Inl e, c)
    | Response code body \<Rightarrow>
        if code = 429 then (Inr ('''', JNull, JStr rate_limit_message), c)
        else if \<not> is_success code then (Inl (HTTPStatusError code), c)
        else (case body of
                Inl e \<Rightarrow> (Inl e, c)
              | Inr result \<Rightarrow> query_result E c session_id conversation_id result polls))"

definition query_genie ::
  "env \<Rightarrow> client \<Rightarrow> string \<Rightarrow> string \<Rightarrow> string option \<Rightarrow> reply \<Rightarrow> (nat \<Rightarrow> reply)
     \<Rightarrow> (exn + string \<times> json \<times> json) \<times> client" where
  "query_genie E c query session_id conversation_id first polls =
     (case query_genie_try E c session_id (opt_str conversation_id) first polls of
        (Inr answer, c') \<Rightarrow> (Inr answer, c')
      | (Inl (HTTPStatusError code), c') \<Rightarrow>
          if code = 429 then (Inr ('''', opt_str conversation_id, JStr rate_limit_message), c')
          else (Inr ('''', opt_str conversation_id,
                     JStr (''Error querying Genie Space: '' @ exn_text E (HTTPStatusError code))),
                c')
      | (Inl e, c') \<Rightarrow>
          (Inr ('''', opt_str conversation_id,
                JStr (''Error querying Genie Space: '' @ exn_text E e)), c'))"


subsection \<open>The vocabulary of the specification for the client\<close>

text \<open>\<open>is_opt_str v\<close>: \<open>v\<close> is \<open>None\<close> or a string.\<close>

definition is_opt_str :: "json \<Rightarrow> bool" where
  "is_opt_str v = (case v of JNull \<Rightarrow> True | JStr s \<Rightarrow> True | _ \<Rightarrow> False)"

text \<open>
  The conversation id that a reply to the request announces: the reply is a 2xx
  response whose body is a dictionary without a top-level \<open>error\<close>, the text of the
  first item of its \<open>result.content\<close> list (the empty string when the item has no
  \<open>text\<close>) parses as a JSON dictionary, and the \<open>conversation_id\<close> of that dictionary
  is not empty.
\<close>

definition announced_conversation_id :: "env \<Rightarrow> reply \<Rightarrow> json option" where
  "announced_conversation_id E r = (case r of
      Response code (Inr (JObj outer)) \<Rightarrow>
        if is_success code \<and> ''error'' \<notin> fst ` set outer then
          (case map_of outer ''result'' of
             Some (JObj res) \<Rightarrow>
               (case map_of res ''content'' of
                  Some (JArr (JObj item # rest)) \<Rightarrow>
                    (case (case map_of item ''text'' of None \<Rightarrow> JStr [] | Some t \<Rightarrow> t) of
                       JStr text \<Rightarrow>
                         (case loads E text of
                            Inr (JObj parsed) \<Rightarrow>
                              (case map_of parsed ''conversation_id'' of
                                 Some v \<Rightarrow> if truthy v then Some v else None
                               | None \<Rightarrow> None)
                          | _ \<Rightarrow> None)
                     | _ \<Rightarrow> None)
                | _ \<Rightarrow> None)
           | _ \<Rightarrow> None)
        else None
    | _ \<Rightarrow> None)"

subsection \<open>Concrete collaborators and replies\<close>

text \<open>
  A decoder that knows three texts of the service and rejects every other text with
  \<open>JSONDecodeError\<close>, and replies that carry the texts, for running the client on
  concrete inputs. \<open>deep_env\<close> is the same decoder with the behaviour of
  \<open>json.loads\<close> on a hundred thousand opening brackets, a text that is not JSON
  and on which it raises \<open>RecursionError\<close>.
\<close>

definition pending_text :: string where
  \<open>pending_text = ''{"conversation_id": "c-1", "message_id": "m-1", "status": "pending"}''\<close>

definition completed_text :: string where
  \<open>completed_text = ''{"status": "completed", "response": "42 clients"}''\<close>

definition odd_status_text :: string where
  \<open>odd_status_text = ''{"conversation_id": "c-9", "status": 5}''\<close>

definition sample_env :: env where
  "sample_env = \<lparr>
     loads = (\<lambda>t.
       if t = pending_text then
         Inr (JObj [(''conversation_id'', JStr ''c-1''), (''message_id'', JStr ''m-1''),
                    (''status'', JStr ''pending'')])
       else if t = completed_text then
         Inr (JObj [(''status'', JStr ''completed''), (''response'', JStr ''42 clients'')])
       else if t = odd_status_text then
         Inr (JObj [(''conversation_id'', JStr ''c-9''), (''status'', JNum 5)])
       else Inl JSONDecodeError),
     dumps = (\<lambda>v. Inr ''(json)''),
     to_markdown = (\<lambda>v. None),
     py_str = (\<lambda>v. ''(str)''),
     exn_text = (\<lambda>e. ''(exception)'') \<rparr>"

definition deep_text :: string where
  "deep_text = replicate 100000 (CHR ''['')"

definition deep_env :: env where
  "deep_env = sample_env\<lparr>loads :=
     (\<lambda>t. if t = deep_text then Inl RecursionError else loads sample_env t)\<rparr>"

definition text_reply :: "string \<Rightarrow> reply" where
  "text_reply t = Response 200 (Inr (JObj [(''result'',
     JObj [(''content'', JArr [JObj [(''type'', JStr ''text''), (''text'', JStr t)]])])]))"

definition error_reply :: "json \<Rightarrow> reply" where
  "error_reply m = Response 200 (Inr (JObj [(''error'', JObj [(''message'', m)])]))"

definition no_sessions :: client where
  "no_sessions = \<lparr>conversation_ids = Map.empty\<rparr>"

section \<open>Properties of the router\<close>

subsection \<open>Rounding to a double is monotone\<close>

lemma rhe_cases: "round_half_even x = \<lfloor>x\<rfloor> \<or> round_half_even x = \<lfloor>x\<rfloor> + 1"
  by (simp add: round_half_even_def Let_def)

lemma rhe_of_int: "round_half_even (of_int n) = n"
  by (simp add: round_half_even_def Let_def)

lemma rhe_mono: assumes "x \<le> y" shows "round_half_even x \<le> round_half_even y"
proof (cases "\<lfloor>x\<rfloor> = \<lfloor>y\<rfloor>")
  case True
  then show ?thesis using assms
    by (auto simp add: round_half_even_def Let_def)
next
  case False
  with assms have "\<lfloor>x\<rfloor> + 1 \<le> \<lfloor>y\<rfloor>" 
    using floor_mono[OF assms] by linarith
  moreover have "round_half_even x \<le> \<lfloor>x\<rfloor> + 1" using rhe_cases[of x] by linarith
  moreover have "\<lfloor>y\<rfloor> \<le> round_half_even y" using rhe_cases[of y] by linarith
  ultimately show ?thesis by linarith
qed

lemma binade_bounds:
  assumes "0 < x"
  shows "2 powi binade x \<le> x" and "x < 2 powi (binade x + 1)"
proof -
  obtain p q where pq: "quotient_of x = (p, q)" by (cases "quotient_of x")
  have q: "0 < q" using pq quotient_of_denom_pos by blast
  have x: "x = of_int p / of_int q" using pq quotient_of_div by blast
  have p: "0 < p" using assms q x by (simp add: zero_less_divide_iff)
  define a where "a = bitlen p"
  define b where "b = bitlen q"
  have bb: "2 ^ nat (a - 1) \<le> p" "p < 2 ^ nat a"
    using bitlen_bounds[OF p] by (simp_all add: a_def)
  have a1: "1 \<le> a"
  proof (rule ccontr)
    assume "\<not> 1 \<le> a"
    then have "nat a = 0" by simp
    with bb(2) p show False by simp
  qed
  have qq: "2 ^ nat (b - 1) \<le> q" "q < 2 ^ nat b"
    using bitlen_bounds[OF q] by (simp_all add: b_def)
  have b1: "1 \<le> b"
  proof (rule ccontr)
    assume "\<not> 1 \<le> b"
    then have "nat b = 0" by simp
    with qq(2) q show False by simp
  qed
  have pa1: "2 powi (a - 1) \<le> (of_int p :: rat)"
  proof -
    have "(of_int (2 ^ nat (a - 1)) :: rat) \<le> of_int p" using bb(1) by (simp only: of_int_le_iff)
    then show ?thesis using a1 by (simp add: power_int_nonneg_exp)
  qed
  have pa2: "(of_int p :: rat) < 2 powi a"
  proof -
    have "(of_int p :: rat) < of_int (2 ^ nat a)" using bb(2) by (simp only: of_int_less_iff)
    then show ?thesis using a1 by (simp add: power_int_nonneg_exp)
  qed
  have qb1: "2 powi (b - 1) \<le> (of_int q :: rat)"
  proof -
    have "(of_int (2 ^ nat (b - 1)) :: rat) \<le> of_int q" using qq(1) by (simp only: of_int_le_iff)
    then show ?thesis using b1 by (simp add: power_int_nonneg_exp)
  qed
  have qb2: "(of_int q :: rat) < 2 powi b"
  proof -
    have "(of_int q :: rat) < of_int (2 ^ nat b)" using qq(2) by (simp only: of_int_less_iff)
    then show ?thesis using b1 by (simp add: power_int_nonneg_exp)
  qed
  have qpos: "(0::rat) < of_int q" using q by simp
  have lo: "2 powi (a - b - 1) < x"
  proof -
    have "(2::rat) powi (a - b - 1) * of_int q < 2 powi (a - b - 1) * 2 powi b"
      using qb2 by (simp add: mult_strict_left_mono)
    also have "\<dots> = 2 powi (a - 1)"
      by (simp add: power_int_add [symmetric])
    also have "\<dots> \<le> of_int p" by (rule pa1)
    finally show ?thesis using qpos by (simp add: x pos_less_divide_eq)
  qed
  have hi: "x < 2 powi (a - b + 1)"
  proof -
    have "(of_int p :: rat) < 2 powi a" by (rule pa2)
    also have "\<dots> = 2 powi (a - b + 1) * 2 powi (b - 1)"
      by (simp add: power_int_add [symmetric])
    also have "\<dots> \<le> 2 powi (a - b + 1) * of_int q"
      using qb1 by (simp add: mult_left_mono)
    finally show ?thesis using qpos by (simp add: x pos_divide_less_eq)
  qed
  have bin: "binade x = (if x < 2 powi (a - b) then a - b - 1 else a - b)"
    by (simp add: binade_def pq a_def b_def Let_def)
  show "2 powi binade x \<le> x" using lo by (auto simp: bin)
  show "x < 2 powi (binade x + 1)" using hi by (auto simp: bin)
qed

lemma binade_mono:
  assumes "0 < x" and "x \<le> y"
  shows "binade x \<le> binade y"
proof (rule ccontr)
  assume "\<not> binade x \<le> binade y"
  then have "binade y + 1 \<le> binade x" by simp
  then have "(2::rat) powi (binade y + 1) \<le> 2 powi binade x"
    by (rule power_int_increasing) simp
  also have "\<dots> \<le> x" using assms(1) by (rule binade_bounds)
  also have "\<dots> \<le> y" by (rule assms(2))
  also have "\<dots> < 2 powi (binade y + 1)" using assms by (intro binade_bounds) simp
  finally show False by simp
qed

lemma to_double_pos:
  assumes "0 < x"
  shows "to_double x =
    of_int (round_half_even (x / 2 powi (binade x - 52))) * 2 powi (binade x - 52)"
  using assms by (simp add: to_double_def Let_def)

lemma to_double_lower:
  assumes "0 < x"
  shows "2 powi binade x \<le> to_double x"
proof -
  define u :: rat where "u = 2 powi (binade x - 52)"
  have u: "0 < u" by (simp add: u_def)
  have e: "(2::rat) powi binade x = of_int (2 ^ 52) * u"
    using power_int_add[of "2::rat" 52 "binade x - 52"] by (simp add: u_def)
  have "of_int (2 ^ 52) * u \<le> x" using binade_bounds(1)[OF assms] e by simp
  then have "of_int (2 ^ 52) \<le> x / u" using u by (simp add: pos_le_divide_eq)
  then have "round_half_even (of_int (2 ^ 52)) \<le> round_half_even (x / u)" by (rule rhe_mono)
  then have "2 ^ 52 \<le> round_half_even (x / u)" by (simp only: rhe_of_int)
  then have "(of_int (2 ^ 52) :: rat) \<le> of_int (round_half_even (x / u))"
    by (simp only: of_int_le_iff)
  then have "of_int (2 ^ 52) * u \<le> of_int (round_half_even (x / u)) * u"
    using u by (simp only: mult_le_cancel_right_pos)
  then show ?thesis using e by (simp add: to_double_pos[OF assms] u_def)
qed

lemma to_double_upper:
  assumes "0 < x"
  shows "to_double x \<le> 2 powi (binade x + 1)"
proof -
  define u :: rat where "u = 2 powi (binade x - 52)"
  have u: "0 < u" by (simp add: u_def)
  have e: "(2::rat) powi (binade x + 1) = of_int (2 ^ 53) * u"
    using power_int_add[of "2::rat" 53 "binade x - 52"] by (simp add: u_def add.commute)
  have "x \<le> of_int (2 ^ 53) * u" using binade_bounds(2)[OF assms] e by simp
  then have "x / u \<le> of_int (2 ^ 53)" using u by (simp add: pos_divide_le_eq)
  then have "round_half_even (x / u) \<le> round_half_even (of_int (2 ^ 53))" by (rule rhe_mono)
  then have "round_half_even (x / u) \<le> 2 ^ 53" by (simp only: rhe_of_int)
  then have "(of_int (round_half_even (x / u)) :: rat) \<le> of_int (2 ^ 53)"
    by (simp only: of_int_le_iff)
  then have "of_int (round_half_even (x / u)) * u \<le> of_int (2 ^ 53) * u"
    using u by (simp only: mult_le_cancel_right_pos)
  then show ?thesis using e by (simp add: to_double_pos[OF assms] u_def)
qed

lemma to_double_mono:
  assumes "0 \<le> x" and "x \<le> y"
  shows "to_double x \<le> to_double y"
proof (cases "x = 0")
  case True
  show ?thesis
  proof (cases "y = 0")
    case True
    with \<open>x = 0\<close> show ?thesis by simp
  next
    case False
    with assms \<open>x = 0\<close> have y: "0 < y" by simp
    have "(0::rat) < 2 powi binade y" by simp
    also have "\<dots> \<le> to_double y" using y by (rule to_double_lower)
    finally show ?thesis using \<open>x = 0\<close> by (simp add: to_double_def)
  qed
next
  case False
  with assms have x: "0 < x" and y: "0 < y" by simp_all
  have le: "binade x \<le> binade y" using x assms(2) by (rule binade_mono)
  show ?thesis
  proof (cases "binade x = binade y")
    case True
    define u :: rat where "u = 2 powi (binade y - 52)"
    have u: "0 < u" by (simp add: u_def)
    have "x / u \<le> y / u" using assms(2) u by (simp add: divide_right_mono)
    then have "round_half_even (x / u) \<le> round_half_even (y / u)" by (rule rhe_mono)
    then have "(of_int (round_half_even (x / u)) :: rat) \<le> of_int (round_half_even (y / u))"
      by (simp only: of_int_le_iff)
    then have "of_int (round_half_even (x / u)) * u \<le> of_int (round_half_even (y / u)) * u"
      using u by (simp only: mult_le_cancel_right_pos)
    then show ?thesis by (simp add: to_double_pos[OF x] to_double_pos[OF y] True u_def)
  next
    case False
    with le have "binade x + 1 \<le> binade y" by simp
    then have "(2::rat) powi (binade x + 1) \<le> 2 powi binade y"
      by (rule power_int_increasing) simp
    with to_double_upper[OF x] to_double_lower[OF y] show ?thesis by linarith
  qed
qed

lemma to_double_nonneg: "0 \<le> x \<Longrightarrow> 0 \<le> to_double x"
  using to_double_mono[of 0 x] by (simp add: to_double_def)


subsection \<open>Counts, literals and float operations\<close>

lemma count_matches_length: "count_matches ps q = int (length (filter (\<lambda>p. search p q) ps))"
  by (induction ps) (simp_all add: count_matches_def)

lemma f_0_5_eq: "f_0_5 = 1 / 2" by code_simp
lemma f_0_1_pos: "0 \<le> f_0_1" by code_simp
lemma f_0_05_pos: "0 \<le> f_0_05" by code_simp
lemma f_literals_le: "f_0_5 \<le> f_0_85" "f_0_85 \<le> f_0_95" "f_0_95 \<le> 95 / 100" by code_simp+

lemma float_of_int_nonneg: "0 \<le> n \<Longrightarrow> 0 \<le> float_of_int n"
  by (simp add: float_of_int_def to_double_nonneg)

lemma float_of_int_mono: "0 \<le> m \<Longrightarrow> m \<le> n \<Longrightarrow> float_of_int m \<le> float_of_int n"
  by (simp add: float_of_int_def to_double_mono)

lemma fmul_nonneg: "0 \<le> a \<Longrightarrow> 0 \<le> c \<Longrightarrow> 0 \<le> fmul a c"
  by (simp add: fmul_def to_double_nonneg)

lemma fmul_mono: "0 \<le> a \<Longrightarrow> a \<le> b \<Longrightarrow> 0 \<le> c \<Longrightarrow> fmul a c \<le> fmul b c"
  by (simp add: fmul_def to_double_mono mult_right_mono)

lemma fadd_half_mono: "0 \<le> a \<Longrightarrow> a \<le> b \<Longrightarrow> fadd f_0_5 a \<le> fadd f_0_5 b"
  by (simp add: fadd_def f_0_5_eq to_double_mono)

lemma fadd_half_ge: "0 \<le> a \<Longrightarrow> f_0_5 \<le> fadd f_0_5 a"
proof -
  assume a: "0 \<le> a"
  have "to_double (1 / 2) \<le> to_double (1 / 2 + a)" using a by (intro to_double_mono) simp_all
  moreover have "to_double (1 / 2) = 1 / 2" by code_simp
  ultimately show ?thesis by (simp add: fadd_def f_0_5_eq)
qed

lemma fmul_commute: "fmul a b = fmul b a"
  by (simp add: fmul_def mult.commute)


subsection \<open>Evaluating the tables on concrete queries\<close>

lemma is_word_char_table:
  "is_word_char (CHR 0x61) = True"
  "is_word_char (CHR 0x62) = True"
  "is_word_char (CHR 0x63) = True"
  "is_word_char (CHR 0x64) = True"
  "is_word_char (CHR 0x65) = True"
  "is_word_char (CHR 0x66) = True"
  "is_word_char (CHR 0x67) = True"
  "is_word_char (CHR 0x68) = True"
  "is_word_char (CHR 0x69) = True"
  "is_word_char (CHR 0x6A) = True"
  "is_word_char (CHR 0x6B) = True"
  "is_word_char (CHR 0x6C) = True"
  "is_word_char (CHR 0x6D) = True"
  "is_word_char (CHR 0x6E) = True"
  "is_word_char (CHR 0x6F) = True"
  "is_word_char (CHR 0x70) = True"
  "is_word_char (CHR 0x71) = True"
  "is_word_char (CHR 0x72) = True"
  "is_word_char (CHR 0x73) = True"
  "is_word_char (CHR 0x74) = True"
  "is_word_char (CHR 0x75) = True"
  "is_word_char (CHR 0x76) = True"
  "is_word_char (CHR 0x77) = True"
  "is_word_char (CHR 0x78) = True"
  "is_word_char (CHR 0x79) = True"
  "is_word_char (CHR 0x7A) = True"
  "is_word_char (CHR 0x20) = False"
  by (simp_all add: is_word_char_def ord_def)

lemma is_space_table:
  "is_space (CHR 0x61) = False"
  "is_space (CHR 0x62) = False"
  "is_space (CHR 0x63) = False"
  "is_space (CHR 0x64) = False"
  "is_space (CHR 0x65) = False"
  "is_space (CHR 0x66) = False"
  "is_space (CHR 0x67) = False"
  "is_space (CHR 0x68) = False"
  "is_space (CHR 0x69) = False"
  "is_space (CHR 0x6A) = False"
  "is_space (CHR 0x6B) = False"
  "is_space (CHR 0x6C) = False"
  "is_space (CHR 0x6D) = False"
  "is_space (CHR 0x6E) = False"
  "is_space (CHR 0x6F) = False"
  "is_space (CHR 0x70) = False"
  "is_space (CHR 0x71) = False"
  "is_space (CHR 0x72) = False"
  "is_space (CHR 0x73) = False"
  "is_space (CHR 0x74) = False"
  "is_space (CHR 0x75) = False"
  "is_space (CHR 0x76) = False"
  "is_space (CHR 0x77) = False"
  "is_space (CHR 0x78) = False"
  "is_space (CHR 0x79) = False"
  "is_space (CHR 0x7A) = False"
  "is_space (CHR 0x20) = True"
  by (simp_all add: is_space_def ord_def)

lemma lower_char_table:
  "lower_char (CHR 0x41) = CHR 0x61"
  "lower_char (CHR 0x42) = CHR 0x62"
  "lower_char (CHR 0x43) = CHR 0x63"
  "lower_char (CHR 0x44) = CHR 0x64"
  "lower_char (CHR 0x45) = CHR 0x65"
  "lower_char (CHR 0x46) = CHR 0x66"
  "lower_char (CHR 0x47) = CHR 0x67"
  "lower_char (CHR 0x48) = CHR 0x68"
  "lower_char (CHR 0x49) = CHR 0x69"
  "lower_char (CHR 0x4A) = CHR 0x6A"
  "lower_char (CHR 0x4B) = CHR 0x6B"
  "lower_char (CHR 0x4C) = CHR 0x6C"
  "lower_char (CHR 0x4D) = CHR 0x6D"
  "lower_char (CHR 0x4E) = CHR 0x6E"
  "lower_char (CHR 0x4F) = CHR 0x6F"
  "lower_char (CHR 0x50) = CHR 0x70"
  "lower_char (CHR 0x51) = CHR 0x71"
  "lower_char (CHR 0x52) = CHR 0x72"
  "lower_char (CHR 0x53) = CHR 0x73"
  "lower_char (CHR 0x54) = CHR 0x74"
  "lower_char (CHR 0x55) = CHR 0x75"
  "lower_char (CHR 0x56) = CHR 0x76"
  "lower_char (CHR 0x57) = CHR 0x77"
  "lower_char (CHR 0x58) = CHR 0x78"
  "lower_char (CHR 0x59) = CHR 0x79"
  "lower_char (CHR 0x5A) = CHR 0x7A"
  "lower_char (CHR 0x61) = CHR 0x61"
  "lower_char (CHR 0x62) = CHR 0x62"
  "lower_char (CHR 0x63) = CHR 0x63"
  "lower_char (CHR 0x64) = CHR 0x64"
  "lower_char (CHR 0x65) = CHR 0x65"
  "lower_char (CHR 0x66) = CHR 0x66"
  "lower_char (CHR 0x67) = CHR 0x67"
  "lower_char (CHR 0x68) = CHR 0x68"
  "lower_char (CHR 0x69) = CHR 0x69"
  "lower_char (CHR 0x6A) = CHR 0x6A"
  "lower_char (CHR 0x6B) = CHR 0x6B"
  "lower_char (CHR 0x6C) = CHR 0x6C"
  "lower_char (CHR 0x6D) = CHR 0x6D"
  "lower_char (CHR 0x6E) = CHR 0x6E"
  "lower_char (CHR 0x6F) = CHR 0x6F"
  "lower_char (CHR 0x70) = CHR 0x70"
  "lower_char (CHR 0x71) = CHR 0x71"
  "lower_char (CHR 0x72) = CHR 0x72"
  "lower_char (CHR 0x73) = CHR 0x73"
  "lower_char (CHR 0x74) = CHR 0x74"
  "lower_char (CHR 0x75) = CHR 0x75"
  "lower_char (CHR 0x76) = CHR 0x76"
  "lower_char (CHR 0x77) = CHR 0x77"
  "lower_char (CHR 0x78) = CHR 0x78"
  "lower_char (CHR 0x79) = CHR 0x79"
  "lower_char (CHR 0x7A) = CHR 0x7A"
  "lower_char (CHR 0x20) = CHR 0x20"
  by code_simp+

lemmas router_eval =
  is_word_char_table is_space_table lower_char_table
  lower_def strip_def search_def count_matches_def at_boundary_def
  DATA_QUERY_PATTERNS_def GENERAL_QUERY_INDICATORS_def
  word_def plural_def word_then_def word_then_word_def
  matches.simps eat.simps search_from.simps
  list.case option.case prod.case if_True if_False simp_thms char.inject
  list.map append_Cons append_Nil rev.simps dropWhile.simps filter.simps
  list_ex_Nil_iff list_ex_Cons_iff sum_list.Cons sum_list.Nil

lemma counts_housing:
  "count_matches DATA_QUERY_PATTERNS (strip (lower ''how many clients have a housing risk flag'')) = 3"
  "count_matches GENERAL_QUERY_INDICATORS (strip (lower ''how many clients have a housing risk flag'')) = 0"
  by (simp_all only: router_eval cong: if_weak_cong list.case_cong_weak option.case_cong_weak)

lemma counts_neural:
  "count_matches DATA_QUERY_PATTERNS (strip (lower ''explain how neural networks work'')) = 0"
  "count_matches GENERAL_QUERY_INDICATORS (strip (lower ''explain how neural networks work'')) = 1"
  by (simp_all only: router_eval cong: if_weak_cong list.case_cong_weak option.case_cong_weak)

lemma counts_mixed_data:
  "count_matches DATA_QUERY_PATTERNS (strip (lower ''Explain the query and the database  '')) = 2"
  "count_matches GENERAL_QUERY_INDICATORS (strip (lower ''Explain the query and the database  '')) = 1"
  by (simp_all only: router_eval cong: if_weak_cong list.case_cong_weak option.case_cong_weak)

lemma counts_mixed_general:
  "count_matches DATA_QUERY_PATTERNS (strip (lower ''explain and define the query'')) = 1"
  "count_matches GENERAL_QUERY_INDICATORS (strip (lower ''explain and define the query'')) = 2"
  by (simp_all only: router_eval cong: if_weak_cong list.case_cong_weak option.case_cong_weak)

lemma counts_tie:
  "count_matches DATA_QUERY_PATTERNS (strip (lower ''explain the query'')) = 1"
  "count_matches GENERAL_QUERY_INDICATORS (strip (lower ''explain the query'')) = 1"
  by (simp_all only: router_eval cong: if_weak_cong list.case_cong_weak option.case_cong_weak)

lemma counts_empty:
  "count_matches DATA_QUERY_PATTERNS (strip (lower '''')) = 0"
  "count_matches GENERAL_QUERY_INDICATORS (strip (lower '''')) = 0"
  by (simp_all only: router_eval cong: if_weak_cong list.case_cong_weak option.case_cong_weak)

lemma counts_explain:
  "count_matches DATA_QUERY_PATTERNS (strip (lower ''explain'')) = 0"
  "count_matches GENERAL_QUERY_INDICATORS (strip (lower ''explain'')) = 1"
  by (simp_all only: router_eval cong: if_weak_cong list.case_cong_weak option.case_cong_weak)


subsection \<open>The confidence\<close>

lemma hits_as_counts:
  "int (data_hits q) = count_matches DATA_QUERY_PATTERNS (strip (lower q))"
  "int (general_hits q) = count_matches GENERAL_QUERY_INDICATORS (strip (lower q))"
  by (simp_all add: data_hits_def general_hits_def count_matches_length)

lemma confidence_values:
  "single_confidence 1 = f_0_6"
  "single_confidence 3 = f_0_8"
  "mixed_confidence 1 = f_0_55"
  "f_0_6 < 7 / 10"
  "7 / 10 \<le> f_0_8"
  "f_0_5 < f_0_6"
  by code_simp+

lemma classify_query_unfold:
  "classify_query q =
    (let d = int (data_hits q); g = int (general_hits q)
     in if d > 0 \<and> g = 0 then (DATA, single_confidence d)
        else if g > 0 \<and> d = 0 then (GENERAL, single_confidence g)
        else if d > g then (DATA, mixed_confidence (d - g))
        else if g > d then (GENERAL, mixed_confidence (g - d))
        else (GENERAL, f_0_5))"
  unfolding classify_query_def hits_as_counts Let_def single_confidence_def mixed_confidence_def
  by (rule refl)

lemma single_ge_half: "0 \<le> n \<Longrightarrow> f_0_5 \<le> single_confidence n"
  unfolding single_confidence_def
  by (intro min.boundedI fadd_half_ge fmul_nonneg float_of_int_nonneg f_0_1_pos)
     (use f_literals_le in simp_all)

lemma mixed_ge_half: "0 \<le> n \<Longrightarrow> f_0_5 \<le> mixed_confidence n"
  unfolding mixed_confidence_def
  by (intro min.boundedI fadd_half_ge fmul_nonneg float_of_int_nonneg f_0_05_pos)
     (use f_literals_le in simp_all)

lemma single_le_cap: "single_confidence n \<le> f_0_95"
  by (simp add: single_confidence_def)

lemma mixed_le_cap: "mixed_confidence n \<le> f_0_95"
proof -
  have "mixed_confidence n \<le> f_0_85" by (simp add: mixed_confidence_def)
  from this f_literals_le(2) show ?thesis by (rule order_trans)
qed

lemma single_mono:
  assumes "0 \<le> m" and "m \<le> n"
  shows "single_confidence m \<le> single_confidence n"
proof -
  have "fadd f_0_5 (fmul (float_of_int m) f_0_1) \<le> fadd f_0_5 (fmul (float_of_int n) f_0_1)"
    using assms
    by (intro fadd_half_mono fmul_mono fmul_nonneg float_of_int_mono float_of_int_nonneg f_0_1_pos)
  then show ?thesis unfolding single_confidence_def by (rule min.mono) (rule order_refl)
qed

lemma mixed_mono:
  assumes "0 \<le> m" and "m \<le> n"
  shows "mixed_confidence m \<le> mixed_confidence n"
proof -
  have "fadd f_0_5 (fmul (float_of_int m) f_0_05) \<le> fadd f_0_5 (fmul (float_of_int n) f_0_05)"
    using assms
    by (intro fadd_half_mono fmul_mono fmul_nonneg float_of_int_mono float_of_int_nonneg f_0_05_pos)
  then show ?thesis unfolding mixed_confidence_def by (rule min.mono) (rule order_refl)
qed

lemma confidence_ge_half: "f_0_5 \<le> snd (classify_query q)"
  by (simp add: classify_query_unfold Let_def single_ge_half mixed_ge_half)

lemma confidence_le_cap: "snd (classify_query q) \<le> f_0_95"
  using f_literals_le by (simp add: classify_query_unfold Let_def single_le_cap mixed_le_cap)

text \<open>The confidence as a function of the margin, by the side the query falls on.\<close>

lemma confidence_one_sided:
  assumes "one_sided q"
  shows "snd (classify_query q) =
    (if signed_margin q = 0 then f_0_5 else single_confidence \<bar>signed_margin q\<bar>)"
proof -
  from assms consider "data_hits q = 0" | "general_hits q = 0" "data_hits q \<noteq> 0"
    by (cases "data_hits q = 0") (auto simp add: one_sided_def)
  then show ?thesis
  proof cases
    case 1
    then show ?thesis by (simp add: classify_query_unfold Let_def signed_margin_def)
  next
    case 2
    then show ?thesis by (simp add: classify_query_unfold Let_def signed_margin_def)
  qed
qed

lemma confidence_two_sided:
  assumes "\<not> one_sided q"
  shows "snd (classify_query q) =
    (if signed_margin q = 0 then f_0_5 else mixed_confidence \<bar>signed_margin q\<bar>)"
proof -
  from assms have pos: "0 < data_hits q" "0 < general_hits q"
    unfolding one_sided_def by simp_all
  consider "data_hits q > general_hits q" | "general_hits q > data_hits q"
    | "data_hits q = general_hits q" by linarith
  then show ?thesis
  proof cases
    case 1
    with pos show ?thesis by (simp add: classify_query_unfold Let_def signed_margin_def)
  next
    case 2
    with pos show ?thesis by (simp add: classify_query_unfold Let_def signed_margin_def)
  next
    case 3
    with pos show ?thesis by (simp add: classify_query_unfold Let_def signed_margin_def)
  qed
qed


subsection \<open>The classification\<close>

text \<open>
  C1. For every query, \<open>classify_query\<close> applies the tie-break rules in order and the
  first rule that matches decides: with \<open>d\<close> and \<open>g\<close> the numbers of data and general
  patterns that match the lowercased, trimmed query (a pattern counts once), it returns
  DATA with min(0.5 + 0.1 d, 0.95) if \<open>d > 0\<close> and \<open>g = 0\<close>; GENERAL with
  min(0.5 + 0.1 g, 0.95) if \<open>g > 0\<close> and \<open>d = 0\<close>; DATA with
  min(0.5 + 0.05 (d - g), 0.85) if \<open>d > g\<close>; GENERAL with min(0.5 + 0.05 (g - d), 0.85)
  if \<open>g > d\<close>; and GENERAL with 0.5 otherwise, which is when both are zero or both are
  equal and nonzero. The arithmetic is that of Python floats.
\<close>

theorem classify_query_tie_break:
  "(let d = int (data_hits q); g = int (general_hits q) in
     classify_query q =
       (if d > 0 \<and> g = 0 then
          (DATA, min (fadd f_0_5 (fmul f_0_1 (float_of_int d))) f_0_95)
        else if g > 0 \<and> d = 0 then
          (GENERAL, min (fadd f_0_5 (fmul f_0_1 (float_of_int g))) f_0_95)
        else if d > g then
          (DATA, min (fadd f_0_5 (fmul f_0_05 (float_of_int (d - g)))) f_0_85)
        else if g > d then
          (GENERAL, min (fadd f_0_5 (fmul f_0_05 (float_of_int (g - d)))) f_0_85)
        else (GENERAL, f_0_5)))
   \<and> ((data_hits q = 0 \<and> general_hits q = 0) \<or>
        (data_hits q = general_hits q \<and> data_hits q \<noteq> 0)
      \<longrightarrow> classify_query q = (GENERAL, f_0_5))"
proof -
  have swap: "fmul f_0_1 x = fmul x f_0_1" "fmul f_0_05 x = fmul x f_0_05" for x
    by (rule fmul_commute)+
  have first: "classify_query q =
       (let d = int (data_hits q); g = int (general_hits q) in
        if d > 0 \<and> g = 0 then
          (DATA, min (fadd f_0_5 (fmul f_0_1 (float_of_int d))) f_0_95)
        else if g > 0 \<and> d = 0 then
          (GENERAL, min (fadd f_0_5 (fmul f_0_1 (float_of_int g))) f_0_95)
        else if d > g then
          (DATA, min (fadd f_0_5 (fmul f_0_05 (float_of_int (d - g)))) f_0_85)
        else if g > d then
          (GENERAL, min (fadd f_0_5 (fmul f_0_05 (float_of_int (g - d)))) f_0_85)
        else (GENERAL, f_0_5))"
    unfolding swap classify_query_unfold single_confidence_def mixed_confidence_def
    by (rule refl)
  have last: "classify_query q = (GENERAL, f_0_5)" if "data_hits q = general_hits q"
    using that by (auto simp add: classify_query_unfold Let_def)
  from first last show ?thesis unfolding Let_def by auto
qed

theorem classify_query_tie_break_witness:
  "classify_query ''how many clients have a housing risk flag'' = (DATA, f_0_8)
   \<and> classify_query ''explain how neural networks work'' = (GENERAL, f_0_6)
   \<and> classify_query ''Explain the query and the database  '' = (DATA, f_0_55)
   \<and> classify_query ''explain and define the query'' = (GENERAL, f_0_55)
   \<and> classify_query ''explain the query'' = (GENERAL, f_0_5)
   \<and> classify_query [] = (GENERAL, f_0_5)"
proof -
  have swap: "fmul f_0_1 x = fmul x f_0_1" "fmul f_0_05 x = fmul x f_0_05" for x
    by (rule fmul_commute)+
  note ev = Let_def hits_as_counts swap confidence_values
    single_confidence_def [symmetric] mixed_confidence_def [symmetric]
  have "classify_query ''how many clients have a housing risk flag'' = (DATA, f_0_8)"
    using classify_query_tie_break [of "''how many clients have a housing risk flag''"]
    by (simp add: ev counts_housing)
  moreover
  have "classify_query ''explain how neural networks work'' = (GENERAL, f_0_6)"
    using classify_query_tie_break [of "''explain how neural networks work''"]
    by (simp add: ev counts_neural)
  moreover
  have "classify_query ''Explain the query and the database  '' = (DATA, f_0_55)"
    using classify_query_tie_break [of "''Explain the query and the database  ''"]
    by (simp add: ev counts_mixed_data)
  moreover
  have "classify_query ''explain and define the query'' = (GENERAL, f_0_55)"
    using classify_query_tie_break [of "''explain and define the query''"]
    by (simp add: ev counts_mixed_general)
  moreover
  have "classify_query ''explain the query'' = (GENERAL, f_0_5)"
    using classify_query_tie_break [of "''explain the query''"]
    by (simp add: ev counts_tie)
  moreover
  have "classify_query [] = (GENERAL, f_0_5)"
    using classify_query_tie_break [of "[]"]
    by (simp add: ev counts_empty)
  ultimately show ?thesis by simp
qed


text \<open>
  C4, as amended. For every query the confidence lies between 0.5 and 0.95. It does not
  grow with the signed margin \<open>dataMatches - generalMatches\<close>: it grows with the size
  of the margin, and only among queries on the same side of the rules. Of two queries
  that both match patterns of one table at most, or that both match patterns of both
  tables, the one with the larger absolute margin never has the smaller confidence.
\<close>

theorem confidence_bounds_and_margin:
  "(1 / 2 \<le> snd (classify_query q) \<and> snd (classify_query q) \<le> 95 / 100)
   \<and> (one_sided q = one_sided q' \<and> \<bar>signed_margin q\<bar> \<le> \<bar>signed_margin q'\<bar>
        \<longrightarrow> snd (classify_query q) \<le> snd (classify_query q'))"
proof -
  have lo: "1 / 2 \<le> snd (classify_query q)"
    using confidence_ge_half [of q] by (simp add: f_0_5_eq)
  have hi: "snd (classify_query q) \<le> 95 / 100"
    using confidence_le_cap [of q] f_literals_le(3) by (rule order_trans)
  have mono: "snd (classify_query q) \<le> snd (classify_query q')"
    if side: "one_sided q = one_sided q'"
      and le: "\<bar>signed_margin q\<bar> \<le> \<bar>signed_margin q'\<bar>"
  proof (cases "signed_margin q = 0")
    case True
    then have "snd (classify_query q) = f_0_5"
      by (cases "one_sided q") (simp_all add: confidence_one_sided confidence_two_sided)
    then show ?thesis by (simp add: confidence_ge_half)
  next
    case False
    with le have nz: "signed_margin q' \<noteq> 0" by auto
    show ?thesis
    proof (cases "one_sided q")
      case True
      with side have "one_sided q'" by simp
      with True False nz le show ?thesis
        by (simp add: confidence_one_sided single_mono)
    next
      case no: False
      with side have "\<not> one_sided q'" by simp
      with no False nz le show ?thesis
        by (simp add: confidence_two_sided mixed_mono)
    qed
  qed
  from lo hi mono show ?thesis by blast
qed

theorem confidence_bounds_and_margin_witness:
  "one_sided ''explain'' = one_sided []
   \<and> \<bar>signed_margin []\<bar> \<le> \<bar>signed_margin ''explain''\<bar>
   \<and> snd (classify_query []) \<le> snd (classify_query ''explain'')
   \<and> 1 / 2 \<le> snd (classify_query ''explain'')
   \<and> snd (classify_query ''explain'') \<le> 95 / 100"
proof -
  have side: "one_sided ''explain'' = one_sided []"
    using hits_as_counts [of "''explain''"] hits_as_counts [of "[]"]
    by (simp add: one_sided_def counts_explain counts_empty)
  have le: "\<bar>signed_margin []\<bar> \<le> \<bar>signed_margin ''explain''\<bar>"
    by (simp add: signed_margin_def hits_as_counts counts_explain counts_empty)
  from side le confidence_bounds_and_margin [of "[]" "''explain''"]
    confidence_bounds_and_margin [of "''explain''" "[]"]
  show ?thesis by simp
qed

text \<open>
  C4 as stated fails: the empty query has the larger signed margin (0 against -1) and the
  smaller confidence (0.5 against 0.6).
\<close>

theorem signed_margin_counterexample:
  "signed_margin ''explain'' < signed_margin []
   \<and> snd (classify_query []) < snd (classify_query ''explain'')"
proof -
  have "classify_query ''explain'' = (GENERAL, f_0_6)"
    by (simp add: classify_query_unfold Let_def hits_as_counts counts_explain confidence_values)
  moreover have "classify_query [] = (GENERAL, f_0_5)"
    by (simp add: classify_query_unfold Let_def hits_as_counts counts_empty)
  moreover have "signed_margin ''explain'' < signed_margin []"
    by (simp add: signed_margin_def hits_as_counts counts_explain counts_empty)
  ultimately show ?thesis using confidence_values(6) by simp
qed

text \<open>
  C5, as amended. \<open>classify_query\<close> on "how many clients have a housing risk flag"
  gives DATA with confidence at least 0.7 (three data patterns match, the float 0.8);
  on "explain how neural networks work" it gives GENERAL with the float 0.6, below 0.7:
  one general pattern matches, \<open>explain\<close>, and no data pattern.
\<close>

theorem classify_examples:
  "fst (classify_query ''how many clients have a housing risk flag'') = DATA
   \<and> 7 / 10 \<le> snd (classify_query ''how many clients have a housing risk flag'')
   \<and> classify_query ''how many clients have a housing risk flag'' = (DATA, f_0_8)
   \<and> classify_query ''explain how neural networks work'' = (GENERAL, f_0_6)
   \<and> f_0_6 < 7 / 10"
proof -
  have "classify_query ''how many clients have a housing risk flag'' = (DATA, f_0_8)"
    by (simp add: classify_query_unfold Let_def hits_as_counts counts_housing confidence_values)
  moreover
  have "classify_query ''explain how neural networks work'' = (GENERAL, f_0_6)"
    by (simp add: classify_query_unfold Let_def hits_as_counts counts_neural confidence_values)
  ultimately show ?thesis using confidence_values(4,5) by simp
qed

text \<open>C5 as stated fails on its second query: the confidence is not 0.7 or more.\<close>

theorem classify_examples_counterexample:
  "\<not> (fst (classify_query ''explain how neural networks work'') = GENERAL
       \<and> 7 / 10 \<le> snd (classify_query ''explain how neural networks work''))"
proof -
  have "classify_query ''explain how neural networks work'' = (GENERAL, f_0_6)"
    by (simp add: classify_query_unfold Let_def hits_as_counts counts_neural confidence_values)
  then show ?thesis using confidence_values(4) by simp
qed

text \<open>
  C6. \<open>should_route_to_genie\<close> is true exactly when \<open>classify_query\<close> gives DATA with a
  confidence of 0.5 or more; the confidence is never below 0.5, so it is true exactly when
  the category is DATA.
\<close>

theorem should_route_iff_data:
  "should_route_to_genie q =
     (fst (classify_query q) = DATA \<and> 1 / 2 \<le> snd (classify_query q))
   \<and> 1 / 2 \<le> snd (classify_query q)
   \<and> should_route_to_genie q = (fst (classify_query q) = DATA)"
proof -
  have half: "1 / 2 \<le> snd (classify_query q)"
    using confidence_ge_half [of q] by (simp add: f_0_5_eq)
  have "should_route_to_genie q =
     (fst (classify_query q) = DATA \<and> 1 / 2 \<le> snd (classify_query q))"
    by (simp add: should_route_to_genie_def f_0_5_eq split: prod.splits)
  with half show ?thesis by simp
qed

theorem should_route_iff_data_witness:
  "should_route_to_genie ''how many clients have a housing risk flag''
   \<and> \<not> should_route_to_genie ''explain how neural networks work''"
proof -
  have "classify_query ''how many clients have a housing risk flag'' = (DATA, f_0_8)"
    by (simp add: classify_query_unfold Let_def hits_as_counts counts_housing confidence_values)
  moreover
  have "classify_query ''explain how neural networks work'' = (GENERAL, f_0_6)"
    by (simp add: classify_query_unfold Let_def hits_as_counts counts_neural confidence_values)
  ultimately show ?thesis
    using should_route_iff_data [of "''how many clients have a housing risk flag''"]
      should_route_iff_data [of "''explain how neural networks work''"]
    by simp
qed


section \<open>Properties of the client\<close>

declare poll_from.simps [simp del]

subsection \<open>The conversation tracker and the normalizer\<close>

text \<open>
  C8. After the entry of \<open>s\<close> is set to \<open>v\<close>, \<open>get_conversation_id\<close> returns \<open>v\<close>;
  after \<open>clear_conversation\<close> it returns \<open>None\<close>; clearing a session that has no entry
  changes nothing; after two assignments the second value is returned.
\<close>

theorem conversation_tracker:
  "get_conversation_id (set_conversation_id c s v) s = v
   \<and> get_conversation_id (clear_conversation c s) s = JNull
   \<and> (s \<notin> dom (conversation_ids c) \<longrightarrow> clear_conversation c s = c)
   \<and> get_conversation_id (set_conversation_id (set_conversation_id c s v1) s v2) s = v2"
  by (auto simp add: get_conversation_id_def set_conversation_id_def clear_conversation_def
        split: option.splits)

theorem conversation_tracker_witness:
  "get_conversation_id (set_conversation_id no_sessions ''s1'' (JStr ''c-1'')) ''s1'' = JStr ''c-1''
   \<and> get_conversation_id
        (clear_conversation (set_conversation_id no_sessions ''s1'' (JStr ''c-1'')) ''s1'') ''s1''
       = JNull
   \<and> ''s1'' \<notin> dom (conversation_ids no_sessions)
   \<and> clear_conversation no_sessions ''s1'' = no_sessions
   \<and> get_conversation_id
        (set_conversation_id (set_conversation_id no_sessions ''s1'' (JStr ''c-1'')) ''s1''
           (JStr ''c-2'')) ''s1''
       = JStr ''c-2''"
proof -
  have absent: "''s1'' \<notin> dom (conversation_ids no_sessions)"
    by (simp add: no_sessions_def)
  from absent
    conversation_tracker [of no_sessions "''s1''" "JStr ''c-1''" "JStr ''c-1''" "JStr ''c-2''"]
    conversation_tracker
      [of "set_conversation_id no_sessions ''s1'' (JStr ''c-1'')" "''s1''" "JStr ''c-1''"]
  show ?thesis by simp
qed

text \<open>
  C9, as amended. A string on which \<open>json.loads\<close> raises \<open>JSONDecodeError\<close> is
  returned unchanged by \<open>_format_response\<close>, so normalizing it again changes nothing.
  When \<open>json.loads\<close> fails with another exception, \<open>_format_response\<close> raises that
  exception: its handler is \<open>except json.JSONDecodeError\<close>.
\<close>

theorem format_response_plain:
  "(loads E s = Inl JSONDecodeError \<longrightarrow>
      format_response E (JStr s) = Inr s
      \<and> then_do (format_response E (JStr s)) (\<lambda>t. format_response E (JStr t)) = Inr s)
   \<and> (\<forall>e. loads E s = Inl e \<and> e \<noteq> JSONDecodeError \<longrightarrow> format_response E (JStr s) = Inl e)"
proof -
  have plain: "format_response E (JStr s) = Inr s" if "loads E s = Inl JSONDecodeError"
    using that by (simp add: format_response_def format_decoded_def then_do_def)
  have other: "format_response E (JStr s) = Inl e" if "loads E s = Inl e" and "e \<noteq> JSONDecodeError" for e
    using that by (cases e) (simp_all add: format_response_def format_decoded_def then_do_def)
  from plain other show ?thesis by (simp add: then_do_def)
qed

theorem format_response_plain_witness:
  "loads sample_env ''42 clients'' = Inl JSONDecodeError
   \<and> format_response sample_env (JStr ''42 clients'') = Inr ''42 clients''
   \<and> then_do (format_response sample_env (JStr ''42 clients''))
        (\<lambda>t. format_response sample_env (JStr t)) = Inr ''42 clients''
   \<and> loads deep_env deep_text = Inl RecursionError
   \<and> format_response deep_env (JStr deep_text) = Inl RecursionError"
proof -
  have rejected: "loads sample_env ''42 clients'' = Inl JSONDecodeError"
    by (simp add: sample_env_def pending_text_def completed_text_def odd_status_text_def)
  have deep: "loads deep_env deep_text = Inl RecursionError"
    by (simp add: deep_env_def)
  note plain = format_response_plain [of sample_env "''42 clients''", THEN conjunct1, THEN mp,
      OF rejected]
  note other = format_response_plain [of deep_env deep_text, THEN conjunct2, rule_format,
      of RecursionError]
  from rejected deep plain other show ?thesis by (simp add: then_do_def)
qed

text \<open>
  C9 as stated fails: a hundred thousand opening brackets are not valid JSON,
  \<open>json.loads\<close> fails on them with \<open>RecursionError\<close>, and \<open>_format_response\<close> raises
  that exception instead of returning the string.
\<close>

theorem format_response_deep_counterexample:
  "loads deep_env deep_text = Inl RecursionError
   \<and> format_response deep_env (JStr deep_text) = Inl RecursionError
   \<and> format_response deep_env (JStr deep_text) \<noteq> Inr deep_text"
  by (simp add: deep_env_def format_response_def format_decoded_def then_do_def)


subsection \<open>The polling loop\<close>

lemma poll_from_calls: "snd (poll_from E m r a k) \<le> k + (m - a)"
proof (induction E m r a k rule: poll_from.induct)
  case (1 E m r a k)
  have p: "posted (r a) \<le> 1" by (simp add: posted_def split: reply.splits)
  show ?case
  proof (cases "a < m")
    case False
    then show ?thesis by (subst poll_from.simps) simp
  next
    case True
    show ?thesis
    proof (cases "poll_attempt E (r a)")
      case (Inl e)
      have "snd (poll_from E m r (a + 1) (k + posted (r a))) \<le> k + posted (r a) + (m - (a + 1))"
        using True Inl by (rule "1.IH"(1))
      moreover have "poll_from E m r a k = poll_from E m r (a + 1) (k + posted (r a))"
        using True Inl by (subst poll_from.simps) simp
      ultimately show ?thesis using True p by simp
    next
      case (Inr v)
      show ?thesis
      proof (cases v)
        case None
        have "snd (poll_from E m r (a + 1) (k + posted (r a))) \<le> k + posted (r a) + (m - (a + 1))"
          using True Inr None by (rule "1.IH"(2))
        moreover have "poll_from E m r a k = poll_from E m r (a + 1) (k + posted (r a))"
          using True Inr None by (subst poll_from.simps) simp
        ultimately show ?thesis using True p by simp
      next
        case (Some answer)
        have "poll_from E m r a k = (answer, k + posted (r a))"
          using True Inr Some by (subst poll_from.simps) simp
        then show ?thesis using True p by simp
      qed
    qed
  qed
qed

lemma poll_from_timeout:
  assumes "\<forall>i. a \<le> i \<and> i < m \<longrightarrow> (\<forall>answer. poll_attempt E (r i) \<noteq> Inr (Some answer))"
  shows "poll_from E m r a k = (('''', JStr timeout_message), k + (\<Sum>i = a..<m. posted (r i)))"
  using assms
proof (induction E m r a k rule: poll_from.induct)
  case (1 E m r a k)
  show ?case
  proof (cases "a < m")
    case False
    then show ?thesis by (subst poll_from.simps) simp
  next
    case True
    have rest: "\<forall>i. a + 1 \<le> i \<and> i < m \<longrightarrow> (\<forall>answer. poll_attempt E (r i) \<noteq> Inr (Some answer))"
      using "1.prems" by simp
    have split: "(\<Sum>i = a..<m. posted (r i)) = posted (r a) + (\<Sum>i = a + 1..<m. posted (r i))"
      using True by (simp add: sum.atLeast_Suc_lessThan)
    have here: "\<forall>answer. poll_attempt E (r a) \<noteq> Inr (Some answer)"
      using "1.prems" True by simp
    show ?thesis
    proof (cases "poll_attempt E (r a)")
      case (Inl e)
      with True "1.IH"(1) [OF True Inl rest] split show ?thesis
        by (subst poll_from.simps) simp
    next
      case (Inr v)
      with here have v: "v = None" by (cases v) simp_all
      with True Inr "1.IH"(2) [OF True Inr v rest] split show ?thesis
        by (subst poll_from.simps) simp
    qed
  qed
qed

lemma poll_from_answer:
  assumes "a \<le> j" and "j < m"
    and "\<forall>i. a \<le> i \<and> i < j \<longrightarrow> (\<forall>answer. poll_attempt E (r i) \<noteq> Inr (Some answer))"
    and "poll_attempt E (r j) = Inr (Some answer)"
  shows "poll_from E m r a k = (answer, k + (\<Sum>i = a..j. posted (r i)))"
  using assms
proof (induction E m r a k rule: poll_from.induct)
  case (1 E m r a k)
  from "1.prems" have am: "a < m" by simp
  show ?case
  proof (cases "a = j")
    case True
    with am "1.prems"(4) show ?thesis by (subst poll_from.simps) simp
  next
    case False
    with "1.prems" have lt: "a < j" and next_le: "a + 1 \<le> j" by simp_all
    have rest: "\<forall>i. a + 1 \<le> i \<and> i < j \<longrightarrow> (\<forall>answer. poll_attempt E (r i) \<noteq> Inr (Some answer))"
      using "1.prems"(3) by simp
    have split: "(\<Sum>i = a..j. posted (r i)) = posted (r a) + (\<Sum>i = a + 1..j. posted (r i))"
      using lt by (simp add: sum.atLeast_Suc_atMost)
    have here: "\<forall>answer. poll_attempt E (r a) \<noteq> Inr (Some answer)"
      using "1.prems"(3) lt by simp
    show ?thesis
    proof (cases "poll_attempt E (r a)")
      case (Inl e)
      with am "1.IH"(1) [OF am Inl next_le "1.prems"(2) rest "1.prems"(4)] split show ?thesis
        by (subst poll_from.simps) simp
    next
      case (Inr v)
      with here have v: "v = None" by (cases v) simp_all
      with am Inr "1.IH"(2) [OF am Inr v next_le "1.prems"(2) rest "1.prems"(4)] split
      show ?thesis
        by (subst poll_from.simps) simp
    qed
  qed
qed

lemma posted_sum_all:
  assumes "\<forall>i<m. \<forall>e. r i \<noteq> TokenFails e"
  shows "(\<Sum>i<m. posted (r i)) = m"
proof -
  have "posted (r i) = 1" if "i < m" for i
    using assms that by (cases "r i") (simp_all add: posted_def)
  then have "(\<Sum>i<m. posted (r i)) = (\<Sum>i<m. 1)" by (intro sum.cong) simp_all
  then show ?thesis by simp
qed

lemma rate_limited_attempt: "poll_attempt E (Response 429 body) = Inr None"
  by (simp add: poll_attempt_def)

lemma error_attempt:
  assumes "is_success code"
    and "map_of outer ''error'' = Some (JObj err)"
    and "map_of err ''message'' = Some (JStr msg)"
  shows "poll_attempt E (Response code (Inr (JObj outer))) =
    Inr (Some ('''', JStr (if contains (lower msg) ''expired'' \<or> contains (lower msg) ''not found''
                           then expired_message else msg)))"
proof -
  from assms(1) have code: "code \<noteq> 429" by (auto simp add: is_success_def)
  from assms(2) have key: "''error'' \<in> fst ` set outer"
    by (metis domI dom_map_of_conv_image_fst)
  show ?thesis
    using assms code key
    by (simp add: poll_attempt_def poll_result_def then_do_def py_in_def py_get_def py_lower_def)
qed


text \<open>
  C3. For every sequence of replies \<open>_poll_for_completion\<close> returns after at most
  \<open>max_attempts\<close> calls of the service. Every attempt that does not return, a
  rate-limited one included, uses one attempt: the answer of attempt \<open>j\<close> is returned
  with the calls of the attempts up to \<open>j\<close>, and when no attempt below
  \<open>max_attempts\<close> returns, the result is the empty text with the time-out error, after
  one call for each attempt whose token was issued, \<open>max_attempts\<close> calls when the
  issuer never fails.
\<close>

theorem poll_for_completion_bounded:
  "snd (poll_for_completion E m r) \<le> m
   \<and> poll_attempt E (Response 429 body) = Inr None
   \<and> ((\<forall>i<m. \<forall>answer. poll_attempt E (r i) \<noteq> Inr (Some answer)) \<longrightarrow>
         poll_for_completion E m r = (('''', JStr timeout_message), \<Sum>i<m. posted (r i))
         \<and> ((\<forall>i<m. \<forall>e. r i \<noteq> TokenFails e) \<longrightarrow> snd (poll_for_completion E m r) = m))
   \<and> (\<forall>j<m. (\<forall>i<j. \<forall>answer. poll_attempt E (r i) \<noteq> Inr (Some answer)) \<longrightarrow>
         (\<forall>answer. poll_attempt E (r j) = Inr (Some answer) \<longrightarrow>
            poll_for_completion E m r = (answer, \<Sum>i\<le>j. posted (r i))))"
proof -
  have bound: "snd (poll_for_completion E m r) \<le> m"
    using poll_from_calls [of E m r 0 0] by (simp add: poll_for_completion_def)
  have timeout:
    "poll_for_completion E m r = (('''', JStr timeout_message), \<Sum>i<m. posted (r i))"
    if "\<forall>i<m. \<forall>answer. poll_attempt E (r i) \<noteq> Inr (Some answer)"
    using that poll_from_timeout [of 0 m E r 0]
    by (simp add: poll_for_completion_def lessThan_atLeast0)
  have answer:
    "poll_for_completion E m r = (answer, \<Sum>i\<le>j. posted (r i))"
    if "j < m" and "\<forall>i<j. \<forall>answer. poll_attempt E (r i) \<noteq> Inr (Some answer)"
      and "poll_attempt E (r j) = Inr (Some answer)" for j answer
    using that poll_from_answer [of 0 j m E r answer 0]
    by (simp add: poll_for_completion_def atMost_atLeast0)
  from bound timeout answer show ?thesis
    by (simp add: rate_limited_attempt posted_sum_all)
qed

lemma pending_attempt: "poll_attempt sample_env (text_reply pending_text) = Inr None"
  by (simp add: poll_attempt_def poll_result_def poll_text_def poll_parsed_def then_do_def
        text_reply_def is_success_def py_in_def py_get_def py_nonempty_def py_first_def
        py_loads_def py_lower_def truthy_def sample_env_def done_statuses_def
        failed_statuses_def lower_def lower_char_table)

lemma completed_attempt:
  "poll_attempt sample_env (text_reply completed_text) = Inr (Some (''42 clients'', JNull))"
  by (simp add: poll_attempt_def poll_result_def poll_text_def poll_parsed_def then_do_def
        text_reply_def is_success_def py_in_def py_get_def py_nonempty_def py_first_def
        py_loads_def py_lower_def truthy_def sample_env_def done_statuses_def
        failed_statuses_def lower_def lower_char_table format_response_def format_decoded_def
        pending_text_def completed_text_def odd_status_text_def)

theorem poll_for_completion_bounded_witness:
  "poll_for_completion sample_env 60 (\<lambda>i. text_reply pending_text)
     = (('''', JStr ''Query timed out. Please try again.''), 60)
   \<and> poll_for_completion sample_env 60
        (\<lambda>i. if even i then Response 429 (Inl JSONDecodeError) else text_reply pending_text)
     = (('''', JStr ''Query timed out. Please try again.''), 60)
   \<and> poll_for_completion sample_env 60
        (\<lambda>i. if i < 2 then text_reply pending_text else text_reply completed_text)
     = ((''42 clients'', JNull), 3)"
proof -
  let ?pending = "\<lambda>i::nat. text_reply pending_text"
  let ?limited = "\<lambda>i::nat. if even i then Response 429 (Inl JSONDecodeError)
                             else text_reply pending_text"
  let ?done = "\<lambda>i::nat. if i < 2 then text_reply pending_text else text_reply completed_text"
  have p: "\<forall>i<60. \<forall>answer. poll_attempt sample_env (?pending i) \<noteq> Inr (Some answer)"
    by (intro allI impI) (simp add: pending_attempt)
  have pt: "\<forall>i<60. \<forall>e. ?pending i \<noteq> TokenFails e"
    by (intro allI impI) (simp add: text_reply_def)
  have l: "\<forall>i<60. \<forall>answer. poll_attempt sample_env (?limited i) \<noteq> Inr (Some answer)"
    by (intro allI impI) (simp add: pending_attempt rate_limited_attempt)
  have lt: "\<forall>i<60. \<forall>e. ?limited i \<noteq> TokenFails e"
    by (intro allI impI) (simp add: text_reply_def)
  have d: "\<forall>i<2. \<forall>answer. poll_attempt sample_env (?done i) \<noteq> Inr (Some answer)"
    by (intro allI impI) (simp add: pending_attempt)
  have d2: "poll_attempt sample_env (?done 2) = Inr (Some (''42 clients'', JNull))"
    by (simp add: completed_attempt)
  have sum3: "(\<Sum>i\<le>2. posted (?done i)) = 3"
    by (simp add: posted_def text_reply_def atMost_Suc numeral_2_eq_2)
  note P = poll_for_completion_bounded [of sample_env 60 ?pending,
      THEN conjunct2, THEN conjunct2, THEN conjunct1, THEN mp, OF p]
  note L = poll_for_completion_bounded [of sample_env 60 ?limited,
      THEN conjunct2, THEN conjunct2, THEN conjunct1, THEN mp, OF l]
  note D = poll_for_completion_bounded [of sample_env 60 ?done,
      THEN conjunct2, THEN conjunct2, THEN conjunct2, rule_format, of 2, OF _ d [rule_format] d2]
  have "fst (poll_for_completion sample_env 60 ?pending) = ('''', JStr timeout_message)"
    using P [THEN conjunct1] by (simp only: fst_conv)
  moreover have "snd (poll_for_completion sample_env 60 ?pending) = 60"
    using P [THEN conjunct2, THEN mp, OF pt] .
  moreover
  have "fst (poll_for_completion sample_env 60 ?limited) = ('''', JStr timeout_message)"
    using L [THEN conjunct1] by (simp only: fst_conv)
  moreover have "snd (poll_for_completion sample_env 60 ?limited) = 60"
    using L [THEN conjunct2, THEN mp, OF lt] .
  moreover
  have "poll_for_completion sample_env 60 ?done = ((''42 clients'', JNull), 3)"
    using D by (simp only: sum3)
  ultimately show ?thesis
    by (simp only: prod_eq_iff fst_conv snd_conv timeout_message_def)
qed


text \<open>
  C7. When the body of a poll response has a top-level \<open>error\<close> whose \<open>message\<close>
  contains "expired" or "not found", in any case of the letters, the loop returns at
  that attempt with the empty text and the fixed expiry message; with any other message
  it returns that message.
\<close>

theorem poll_top_level_error:
  assumes "j < m"
    and "\<forall>i<j. \<forall>answer. poll_attempt E (r i) \<noteq> Inr (Some answer)"
    and "r j = Response code (Inr (JObj outer))"
    and "is_success code"
    and "map_of outer ''error'' = Some (JObj err)"
    and "map_of err ''message'' = Some (JStr msg)"
  shows "poll_for_completion E m r =
    (('''', JStr (if contains (lower msg) ''expired'' \<or> contains (lower msg) ''not found''
                  then ''The conversation has expired. Please try your query again.''
                  else msg)),
     \<Sum>i\<le>j. posted (r i))"
proof -
  have "poll_attempt E (r j) =
    Inr (Some ('''', JStr (if contains (lower msg) ''expired'' \<or> contains (lower msg) ''not found''
                           then expired_message else msg)))"
    unfolding assms(3) using assms(4-6) by (rule error_attempt)
  with assms(1,2) show ?thesis
    using poll_from_answer [of 0 j m E r _ 0]
    by (simp add: poll_for_completion_def atMost_atLeast0 expired_message_def)
qed

theorem poll_top_level_error_witness:
  "poll_for_completion sample_env 60
     (\<lambda>i. if i = 0 then text_reply pending_text
          else error_reply (JStr ''Conversation Not Found''))
     = (('''', JStr ''The conversation has expired. Please try your query again.''), 2)
   \<and> poll_for_completion sample_env 60 (\<lambda>i. error_reply (JStr ''Quota exceeded''))
     = (('''', JStr ''Quota exceeded''), 1)"
proof -
  let ?gone = "\<lambda>i::nat. if i = 0 then text_reply pending_text
                         else error_reply (JStr ''Conversation Not Found'')"
  let ?quota = "\<lambda>i::nat. error_reply (JStr ''Quota exceeded'')"
  have ok: "is_success 200" by (simp add: is_success_def)
  have before: "\<forall>i<1. \<forall>answer. poll_attempt sample_env (?gone i) \<noteq> Inr (Some answer)"
    by (simp add: pending_attempt)
  have at1: "?gone 1 = Response 200 (Inr (JObj [(''error'',
      JObj [(''message'', JStr ''Conversation Not Found'')])]))"
    by (simp add: error_reply_def)
  have at0: "?quota 0 = Response 200 (Inr (JObj [(''error'',
      JObj [(''message'', JStr ''Quota exceeded'')])]))"
    by (simp add: error_reply_def)
  have low1: "lower ''Conversation Not Found'' = ''conversation not found''"
    by (simp add: lower_def lower_char_table)
  have low2: "lower ''Quota exceeded'' = ''quota exceeded''"
    by (simp add: lower_def lower_char_table)
  have "poll_for_completion sample_env 60 ?gone
     = (('''', JStr ''The conversation has expired. Please try your query again.''), 2)"
    using poll_top_level_error [of 1 60 sample_env ?gone, OF _ before at1 ok]
    by (simp add: low1 posted_def text_reply_def error_reply_def)
  moreover
  have "poll_for_completion sample_env 60 ?quota = (('''', JStr ''Quota exceeded''), 1)"
    using poll_top_level_error [of 0 60 sample_env ?quota, OF _ _ at0 ok]
    by (simp add: low2 posted_def error_reply_def)
  ultimately show ?thesis by simp
qed


subsection \<open>What the client returns\<close>

lemma query_parsed_not_dict:
  assumes "\<forall>kvs. parsed \<noteq> JObj kvs"
  shows "query_parsed E c s t parsed polls = (Inl AttributeError, c)"
  using assms by (cases parsed) (simp_all add: query_parsed_def py_get_def)

lemma query_parsed_client:
  "snd (query_parsed E c s t (JObj kvs) polls) =
     (case map_of kvs ''conversation_id'' of
        Some v \<Rightarrow> if truthy v then set_conversation_id c s v else c
      | None \<Rightarrow> c)"
  by (simp add: query_parsed_def py_get_def Let_def truthy_def
        split: sum.splits prod.splits option.splits)

lemma decode_failed_client: "snd (decode_failed E cid0 text_content e c) = c"
  by (simp add: decode_failed_def)

lemma query_text_client:
  "snd (query_text E c s cid0 text_content polls) =
     (case text_content of
        JStr t \<Rightarrow>
          (case loads E t of
             Inr (JObj parsed) \<Rightarrow>
               (case map_of parsed ''conversation_id'' of
                  Some v \<Rightarrow> if truthy v then set_conversation_id c s v else c
                | None \<Rightarrow> c)
           | _ \<Rightarrow> c)
      | _ \<Rightarrow> c)"
proof -
  have parsed: "snd (query_text E c s cid0 text_content polls) =
      snd (query_parsed E c s text_content parsed polls)"
    if "py_loads E text_content = Inr parsed" for parsed
    using that by (simp add: query_text_def decode_failed_client split: prod.splits sum.splits)
  show ?thesis
  proof (cases text_content)
    case (JStr t)
    show ?thesis
    proof (cases "loads E t")
      case (Inl e)
      then show ?thesis by (simp add: JStr query_text_def py_loads_def decode_failed_client)
    next
      case (Inr found)
      then have loaded: "py_loads E text_content = Inr found" by (simp add: JStr py_loads_def)
      show ?thesis
      proof (cases "\<exists>kvs. found = JObj kvs")
        case True
        then obtain kvs where "found = JObj kvs" by blast
        then show ?thesis
          using parsed [OF loaded] by (simp add: JStr Inr query_parsed_client)
      next
        case False
        then have "query_parsed E c s text_content found polls = (Inl AttributeError, c)"
          by (intro query_parsed_not_dict) simp
        with False parsed [OF loaded] show ?thesis by (cases found) (simp_all add: JStr Inr)
      qed
    qed
  qed (simp_all add: query_text_def py_loads_def decode_failed_client)
qed

lemma query_content_client:
  "snd (case py_nonempty content of
          Inl e \<Rightarrow> (Inl e, c)
        | Inr False \<Rightarrow> (Inr (''No response from Genie Space.'', cid0, JNull), c)
        | Inr True \<Rightarrow>
       (case then_do (py_first content) (\<lambda>item. py_get item ''text'' (JStr '''')) of
          Inl e \<Rightarrow> (Inl e, c)
        | Inr text_content \<Rightarrow> query_text E c s cid0 text_content polls)) =
     (case content of
        JArr (JObj item # rest) \<Rightarrow>
          (case (case map_of item ''text'' of None \<Rightarrow> JStr [] | Some t \<Rightarrow> t) of
             JStr t \<Rightarrow>
               (case loads E t of
                  Inr (JObj parsed) \<Rightarrow>
                    (case map_of parsed ''conversation_id'' of
                       Some v \<Rightarrow> if truthy v then set_conversation_id c s v else c
                     | None \<Rightarrow> c)
                | _ \<Rightarrow> c)
           | _ \<Rightarrow> c)
      | _ \<Rightarrow> c)"
proof (cases "\<exists>item rest. content = JArr (JObj item # rest)")
  case True
  then obtain item rest where content: "content = JArr (JObj item # rest)" by blast
  have first: "then_do (py_first content) (\<lambda>item. py_get item ''text'' (JStr '''')) =
      Inr (case map_of item ''text'' of None \<Rightarrow> JStr [] | Some t \<Rightarrow> t)"
    by (simp add: content then_do_def py_first_def py_get_def)
  show ?thesis
    unfolding first
    by (simp add: content py_nonempty_def truthy_def query_text_client)
next
  case False
  have "snd (case py_nonempty content of
          Inl e \<Rightarrow> (Inl e, c)
        | Inr False \<Rightarrow> (Inr (''No response from Genie Space.'', cid0, JNull), c)
        | Inr True \<Rightarrow>
       (case then_do (py_first content) (\<lambda>item. py_get item ''text'' (JStr '''')) of
          Inl e \<Rightarrow> (Inl e, c)
        | Inr text_content \<Rightarrow> query_text E c s cid0 text_content polls)) = c"
  proof (cases content)
    case (JArr xs)
    show ?thesis
    proof (cases xs)
      case Nil
      then show ?thesis by (simp add: JArr py_nonempty_def truthy_def)
    next
      case (Cons x rest)
      with False JArr have "\<forall>kvs. x \<noteq> JObj kvs" by simp
      then have "py_get x ''text'' (JStr '''') = Inl AttributeError"
        by (cases x) (simp_all add: py_get_def)
      then show ?thesis
        by (simp add: JArr Cons py_nonempty_def truthy_def py_first_def then_do_def)
    qed
  next
    case (JStr x)
    then show ?thesis
      by (cases x) (simp_all add: py_nonempty_def truthy_def py_first_def then_do_def py_get_def)
  next
    case (JObj kvs)
    then show ?thesis
      by (cases kvs) (simp_all add: py_nonempty_def truthy_def py_first_def then_do_def)
  qed (simp_all add: py_nonempty_def truthy_def)
  moreover have "(case content of
        JArr (JObj item # rest) \<Rightarrow>
          (case (case map_of item ''text'' of None \<Rightarrow> JStr [] | Some t \<Rightarrow> t) of
             JStr t \<Rightarrow>
               (case loads E t of
                  Inr (JObj parsed) \<Rightarrow>
                    (case map_of parsed ''conversation_id'' of
                       Some v \<Rightarrow> if truthy v then set_conversation_id c s v else c
                     | None \<Rightarrow> c)
                | _ \<Rightarrow> c)
           | _ \<Rightarrow> c)
      | _ \<Rightarrow> c) = c"
    using False by (auto split: json.splits list.splits)
  ultimately show ?thesis by simp
qed


lemma query_result_client:
  "snd (query_result E c s cid0 result polls) =
     (case announced_conversation_id E (Response 200 (Inr result)) of
        Some v \<Rightarrow> set_conversation_id c s v
      | None \<Rightarrow> c)"
proof (cases result)
  case (JObj outer)
  show ?thesis
  proof (cases "''error'' \<in> fst ` set outer")
    case True
    then show ?thesis
      by (simp add: JObj query_result_def py_in_def announced_conversation_id_def)
  next
    case False
    show ?thesis
    proof (cases "\<exists>res. map_of outer ''result'' = Some (JObj res)")
      case True
      then obtain res where res: "map_of outer ''result'' = Some (JObj res)" by blast
      define content where
        "content = (case map_of res ''content'' of None \<Rightarrow> JArr [] | Some x \<Rightarrow> x)"
      have content: "then_do (py_get (JObj outer) ''result'' (JObj [])) (\<lambda>res.
             py_get res ''content'' (JArr [])) = Inr content"
        by (simp add: res content_def then_do_def py_get_def)
      have "snd (query_result E c s cid0 result polls) =
        (case content of
           JArr (JObj item # rest) \<Rightarrow>
             (case (case map_of item ''text'' of None \<Rightarrow> JStr [] | Some t \<Rightarrow> t) of
                JStr t \<Rightarrow>
                  (case loads E t of
                     Inr (JObj parsed) \<Rightarrow>
                       (case map_of parsed ''conversation_id'' of
                          Some v \<Rightarrow> if truthy v then set_conversation_id c s v else c
                        | None \<Rightarrow> c)
                   | _ \<Rightarrow> c)
              | _ \<Rightarrow> c)
         | _ \<Rightarrow> c)"
        using False
        by (simp add: query_result_def content JObj py_in_def query_content_client)
      also have "\<dots> = (case announced_conversation_id E (Response 200 (Inr result)) of
          Some v \<Rightarrow> set_conversation_id c s v | None \<Rightarrow> c)"
        using False
        by (simp add: announced_conversation_id_def JObj res is_success_def content_def
              split: option.splits json.splits list.splits sum.splits)
      finally show ?thesis .
    next
      case no_result: False
      have early: "snd (query_result E c s cid0 result polls) = c"
      proof (cases "map_of outer ''result''")
        case None
        with False show ?thesis
          by (simp add: query_result_def JObj py_in_def then_do_def py_get_def py_nonempty_def
                truthy_def)
      next
        case (Some res)
        with no_result have "\<forall>kvs. res \<noteq> JObj kvs" by simp
        then have "py_get res ''content'' (JArr []) = Inl AttributeError"
          by (cases res) (simp_all add: py_get_def)
        with False Some show ?thesis
          by (simp add: query_result_def JObj py_in_def then_do_def py_get_def)
      qed
      have "announced_conversation_id E (Response 200 (Inr result)) = None"
        using no_result
        by (auto simp add: announced_conversation_id_def JObj split: option.splits json.splits)
      with early show ?thesis by simp
    qed
  qed
qed (simp_all add: query_result_def py_in_def py_get_def then_do_def
      announced_conversation_id_def split: sum.splits bool.splits)

lemma query_genie_try_client:
  "snd (query_genie_try E c s cid0 first polls) =
     (case announced_conversation_id E first of
        Some v \<Rightarrow> set_conversation_id c s v
      | None \<Rightarrow> c)"
proof (cases first)
  case (Response code body)
  show ?thesis
  proof (cases "is_success code")
    case False
    then show ?thesis
      by (simp add: Response query_genie_try_def announced_conversation_id_def
            split: sum.splits json.splits)
  next
    case True
    then have code: "code \<noteq> 429" by (auto simp add: is_success_def)
    show ?thesis
    proof (cases body)
      case (Inl e)
      with True code show ?thesis
        by (simp add: Response query_genie_try_def announced_conversation_id_def)
    next
      case (Inr result)
      have "announced_conversation_id E (Response code (Inr result)) =
            announced_conversation_id E (Response 200 (Inr result))"
        using True by (simp add: announced_conversation_id_def is_success_def)
      with True code show ?thesis
        by (simp add: Response Inr query_genie_try_def query_result_client)
    qed
  qed
qed (simp_all add: query_genie_try_def announced_conversation_id_def)

lemma query_genie_client:
  "snd (query_genie E c q s cid0 first polls) = snd (query_genie_try E c s (opt_str cid0) first polls)"
  by (simp add: query_genie_def split: prod.splits sum.splits exn.splits)

lemma query_genie_returns:
  "\<exists>answer. fst (query_genie E c q s cid0 first polls) = Inr answer"
  by (simp add: query_genie_def split: prod.splits sum.splits exn.splits)


lemma sample_poll_done:
  "poll_for_completion sample_env 60
     (\<lambda>i. if i < 2 then text_reply pending_text else text_reply completed_text)
   = ((''42 clients'', JNull), 3)"
proof -
  let ?done = "\<lambda>i::nat. if i < 2 then text_reply pending_text else text_reply completed_text"
  have "\<forall>i. 0 \<le> i \<and> i < 2 \<longrightarrow> (\<forall>answer. poll_attempt sample_env (?done i) \<noteq> Inr (Some answer))"
    by (intro allI impI) (simp add: pending_attempt)
  moreover have "poll_attempt sample_env (?done 2) = Inr (Some (''42 clients'', JNull))"
    by (simp add: completed_attempt)
  moreover have "(\<Sum>i = 0..2. posted (?done i)) = 3"
    by (simp add: posted_def text_reply_def atLeast0AtMost atMost_Suc numeral_2_eq_2)
  ultimately show ?thesis
    using poll_from_answer [of 0 2 60 sample_env ?done "(''42 clients'', JNull)" 0]
    by (simp add: poll_for_completion_def)
qed

lemma sample_loads:
  "loads sample_env pending_text =
     Inr (JObj [(''conversation_id'', JStr ''c-1''), (''message_id'', JStr ''m-1''),
                (''status'', JStr ''pending'')])"
  by (simp add: sample_env_def)

lemma sample_query_deferred:
  assumes "fst (poll_for_completion sample_env 60 polls) = (''42 clients'', JNull)"
  shows "query_genie sample_env c ''how many clients'' ''s1'' None (text_reply pending_text) polls
   = (Inr (''42 clients'', JStr ''c-1'', JNull), set_conversation_id c ''s1'' (JStr ''c-1''))"
  by (simp add: query_genie_def query_genie_try_def query_result_def query_text_def
        query_parsed_def text_reply_def is_success_def py_in_def py_get_def py_nonempty_def
        py_first_def py_loads_def py_lower_def then_do_def truthy_def opt_str_def
        done_statuses_def lower_def lower_char_table sample_loads assms)

lemma sample_query_error:
  "query_genie sample_env c ''how many clients'' ''s1'' None (error_reply m) polls
   = (Inr ('''', JNull, m), c)"
  by (simp add: query_genie_def query_genie_try_def query_result_def error_reply_def
        is_success_def py_in_def py_get_def then_do_def)

lemma sample_loads_odd:
  "loads sample_env odd_status_text =
     Inr (JObj [(''conversation_id'', JStr ''c-9''), (''status'', JNum 5)])"
  by (simp add: sample_env_def pending_text_def completed_text_def odd_status_text_def)

lemma sample_query_odd_status:
  "query_genie sample_env c ''how many clients'' ''s1'' None (text_reply odd_status_text) polls
   = (Inr ('''', JNull, JStr ''Error querying Genie Space: (exception)''),
      set_conversation_id c ''s1'' (JStr ''c-9''))"
proof -
  have "exn_text sample_env AttributeError = ''(exception)''"
    by (simp add: sample_env_def)
  then show ?thesis
    by (simp add: query_genie_def query_genie_try_def query_result_def query_text_def
          decode_failed_def query_parsed_def text_reply_def is_success_def py_in_def py_get_def
          py_nonempty_def py_first_def py_loads_def py_lower_def then_do_def truthy_def
          opt_str_def sample_loads_odd)
qed

lemma sample_announced:
  "announced_conversation_id sample_env (text_reply pending_text) = Some (JStr ''c-1'')"
  "announced_conversation_id sample_env (error_reply m) = None"
  "announced_conversation_id sample_env (text_reply odd_status_text) = Some (JStr ''c-9'')"
  by (simp_all add: announced_conversation_id_def text_reply_def error_reply_def is_success_def
        truthy_def sample_loads sample_loads_odd)


lemma announced_none_raised:
  "announced_conversation_id E (TokenFails e) = None"
  "announced_conversation_id E (SendFails e) = None"
  "announced_conversation_id E (Response code (Inl e)) = None"
  by (simp_all add: announced_conversation_id_def)

lemma announced_none_status:
  assumes "\<not> is_success code"
  shows "announced_conversation_id E (Response code body) = None"
proof (cases body)
  case (Inl e)
  then show ?thesis by (simp add: announced_none_raised)
next
  case (Inr result)
  with assms show ?thesis by (cases result) (simp_all add: announced_conversation_id_def)
qed

lemma announced_none_error:
  assumes "''error'' \<in> fst ` set outer"
  shows "announced_conversation_id E (Response code (Inr (JObj outer))) = None"
  using assms by (simp add: announced_conversation_id_def)

text \<open>
  C2. \<open>query_genie\<close> is declared to return a text, an optional conversation id and an
  optional error message, the last two strings or \<open>None\<close>. When the service answers
  the request with a top-level error whose message is the number 42, the call returns
  the empty text, no conversation id and that number as the error: the message is
  passed on as it is found, and what is returned is not a string.
\<close>

theorem query_genie_untyped_error:
  "fst (query_genie sample_env no_sessions ''how many clients'' ''s1'' None
         (error_reply (JNum 42)) (\<lambda>i. text_reply pending_text))
     = Inr ('''', JNull, JNum 42)
   \<and> \<not> is_opt_str (JNum 42)"
  by (simp add: sample_query_error is_opt_str_def)

text \<open>
  C10. A call of \<open>query_genie\<close> for session \<open>s\<close> changes the conversation ids at
  \<open>s\<close> only, and only when the reply announces a conversation id: then the entry of
  \<open>s\<close> becomes that id. In every other case the map stays as it was: when the token
  issuer or the HTTP call raises, on a 429 or another status outside 2xx, on a body
  that does not decode, on a top-level error, without content, with a text that is not
  JSON or has no conversation id. An exception raised after the assignment, as when the
  announced status is not a string, does not undo it.
\<close>

theorem query_genie_frame:
  "conversation_ids (snd (query_genie E c q s cid0 first polls)) =
     (case announced_conversation_id E first of
        Some v \<Rightarrow> (conversation_ids c)(s \<mapsto> v)
      | None \<Rightarrow> conversation_ids c)
   \<and> (\<forall>s'. s' \<noteq> s \<longrightarrow>
         conversation_ids (snd (query_genie E c q s cid0 first polls)) s' = conversation_ids c s')
   \<and> ((\<exists>e. first = TokenFails e \<or> first = SendFails e)
        \<or> (\<exists>code body. first = Response code body
              \<and> (code = 429 \<or> \<not> is_success code \<or> (\<exists>e. body = Inl e)
                   \<or> (\<exists>outer. body = Inr (JObj outer) \<and> ''error'' \<in> fst ` set outer)))
       \<longrightarrow> snd (query_genie E c q s cid0 first polls) = c)"
proof -
  have client: "snd (query_genie E c q s cid0 first polls) =
     (case announced_conversation_id E first of
        Some v \<Rightarrow> set_conversation_id c s v
      | None \<Rightarrow> c)"
    by (simp add: query_genie_client query_genie_try_client)
  have ids: "conversation_ids (snd (query_genie E c q s cid0 first polls)) =
     (case announced_conversation_id E first of
        Some v \<Rightarrow> (conversation_ids c)(s \<mapsto> v)
      | None \<Rightarrow> conversation_ids c)"
    by (simp add: client set_conversation_id_def split: option.splits)
  have others: "conversation_ids (snd (query_genie E c q s cid0 first polls)) s' =
      conversation_ids c s'" if "s' \<noteq> s" for s'
    using that by (simp add: ids split: option.splits)
  have none: "announced_conversation_id E first = None"
    if "(\<exists>e. first = TokenFails e \<or> first = SendFails e)
        \<or> (\<exists>code body. first = Response code body
              \<and> (code = 429 \<or> \<not> is_success code \<or> (\<exists>e. body = Inl e)
                   \<or> (\<exists>outer. body = Inr (JObj outer) \<and> ''error'' \<in> fst ` set outer)))"
  proof -
    have "\<not> is_success 429" by (simp add: is_success_def)
    with that show ?thesis
      by (elim disjE exE conjE)
         (simp_all add: announced_none_raised announced_none_status announced_none_error)
  qed
  from ids others none client show ?thesis by simp
qed

theorem query_genie_frame_witness:
  "conversation_ids
     (snd (query_genie sample_env (set_conversation_id no_sessions ''s2'' (JStr ''c-0''))
             ''how many clients'' ''s1'' None (text_reply pending_text)
             (\<lambda>i. if i < 2 then text_reply pending_text else text_reply completed_text)))
     = [''s2'' \<mapsto> JStr ''c-0'', ''s1'' \<mapsto> JStr ''c-1'']
   \<and> snd (query_genie sample_env (set_conversation_id no_sessions ''s2'' (JStr ''c-0''))
             ''how many clients'' ''s1'' None (error_reply (JStr ''Quota exceeded''))
             (\<lambda>i. text_reply pending_text))
     = set_conversation_id no_sessions ''s2'' (JStr ''c-0'')
   \<and> fst (query_genie sample_env (set_conversation_id no_sessions ''s2'' (JStr ''c-0''))
             ''how many clients'' ''s1'' None (text_reply odd_status_text)
             (\<lambda>i. text_reply pending_text))
     = Inr ('''', JNull, JStr ''Error querying Genie Space: (exception)'')
   \<and> conversation_ids
     (snd (query_genie sample_env (set_conversation_id no_sessions ''s2'' (JStr ''c-0''))
             ''how many clients'' ''s1'' None (text_reply odd_status_text)
             (\<lambda>i. text_reply pending_text)))
     = [''s2'' \<mapsto> JStr ''c-0'', ''s1'' \<mapsto> JStr ''c-9'']"
proof -
  let ?c = "set_conversation_id no_sessions ''s2'' (JStr ''c-0'')"
  have "conversation_ids
     (snd (query_genie sample_env ?c ''how many clients'' ''s1'' None (text_reply pending_text)
             (\<lambda>i. if i < 2 then text_reply pending_text else text_reply completed_text)))
     = [''s2'' \<mapsto> JStr ''c-0'', ''s1'' \<mapsto> JStr ''c-1'']"
    using query_genie_frame [of sample_env ?c "''how many clients''" "''s1''" None
        "text_reply pending_text"
        "\<lambda>i. if i < 2 then text_reply pending_text else text_reply completed_text"]
    by (simp add: sample_announced set_conversation_id_def no_sessions_def)
  moreover
  have "snd (query_genie sample_env ?c ''how many clients'' ''s1'' None
               (error_reply (JStr ''Quota exceeded'')) (\<lambda>i. text_reply pending_text)) = ?c"
    using query_genie_frame [of sample_env ?c "''how many clients''" "''s1''" None
        "error_reply (JStr ''Quota exceeded'')" "\<lambda>i. text_reply pending_text"]
    by (simp add: error_reply_def is_success_def)
  moreover
  have "fst (query_genie sample_env ?c ''how many clients'' ''s1'' None
               (text_reply odd_status_text) (\<lambda>i. text_reply pending_text))
     = Inr ('''', JNull, JStr ''Error querying Genie Space: (exception)'')"
    by (simp add: sample_query_odd_status)
  moreover
  have "conversation_ids
     (snd (query_genie sample_env ?c ''how many clients'' ''s1'' None
             (text_reply odd_status_text) (\<lambda>i. text_reply pending_text)))
     = [''s2'' \<mapsto> JStr ''c-0'', ''s1'' \<mapsto> JStr ''c-9'']"
    using query_genie_frame [of sample_env ?c "''how many clients''" "''s1''" None
        "text_reply odd_status_text" "\<lambda>i. text_reply pending_text"]
    by (simp add: sample_announced set_conversation_id_def no_sessions_def)
  ultimately show ?thesis by simp
qed


end
